theory Spec2Isabelle
  imports Main "HOL-Library.Word" "HOL-Library.Log_Nat"
begin

section \<open>The VTEX provider: resilient client and user-role resource\<close>

text \<open>
  A shallow embedding of \<^verbatim>\<open>internal/client/client.go\<close> and of the resource
  \<^verbatim>\<open>internal/provider/vtex_user_role_resource.go\<close>.

  Conventions of the embedding.
  \<^item> A Go \<^verbatim>\<open>string\<close> is a byte sequence, here \<^typ>\<open>string\<close>.
  \<^item> A \<^verbatim>\<open>time.Duration\<close> is a count of nanoseconds, here an \<^typ>\<open>int\<close>; the
    one place where the source computes a duration from an untrusted number (the token
    lifetime) is done on 64-bit words, so that the wrap-around is visible.
  \<^item> A \<^verbatim>\<open>time.Time\<close> is an \<^typ>\<open>int\<close>, the nanoseconds since the Unix epoch
    on a single clock (the wall clock and the monotonic clock are not told apart).
  \<^item> The network, the clock, \<^verbatim>\<open>http.NewRequest\<close> and \<^verbatim>\<open>json.Marshal\<close> are
    the environment: a record of functions that the code consults. The \<open>n\<close>-th call
    of an endpoint receives the \<open>n\<close>-th reply, the \<open>n\<close>-th reading of the clock the
    \<open>n\<close>-th instant.
  \<^item> A \<^verbatim>\<open>time.Sleep\<close> is recorded in the trace of the run with its duration; the
    instants that the clock shows afterwards are the environment's, and no theorem
    below assumes more of them than it states.
  \<^item> One caller runs at a time: the mutex of the client is not modelled.
\<close>

subsection \<open>Library functions of package strings\<close>

text \<open>
  \<^verbatim>\<open>strings.SplitN(s, sep, n)\<close> and \<^verbatim>\<open>strings.Split(s, sep)\<close> for a separator of
  one byte, which is how the resource calls them (\<^verbatim>\<open>":"\<close> and \<^verbatim>\<open>"@"\<close>).
  \<open>splitLoop c n s\<close> is the loop of \<^verbatim>\<open>genSplit\<close> with \<open>n\<close> cuts left.
\<close>

fun splitLoop :: "char \<Rightarrow> nat \<Rightarrow> string \<Rightarrow> string list" where
  "splitLoop c 0 s = [s]"
| "splitLoop c (Suc n) s =
     (if c \<in> set s
      then takeWhile (\<lambda>x. x \<noteq> c) s # splitLoop c n (tl (dropWhile (\<lambda>x. x \<noteq> c) s))
      else [s])"

definition SplitN :: "string \<Rightarrow> char \<Rightarrow> int \<Rightarrow> string list" where
  "SplitN s c n =
     (if n = 0 then []
      else
        let n1 = (if n < 0 then int (count_list s c) + 1 else n);
            n2 = (if n1 > int (length s) + 1 then int (length s) + 1 else n1)
        in splitLoop c (nat (n2 - 1)) s)"

definition Split :: "string \<Rightarrow> char \<Rightarrow> string list" where
  "Split s c = SplitN s c (- 1)"

subsection \<open>The client: data\<close>

definition Millisecond :: int where "Millisecond = 1000000"
definition Second :: int where "Second = 1000000000"

definition maxRetries :: nat where "maxRetries = 20"
definition baseWait :: int where "baseWait = 100 * Millisecond"
definition maxWait :: int where "maxWait = 5 * Second"
definition minWait :: int where "minWait = 50 * Millisecond"

text \<open>
  A binary64 constant is a pair \<open>(m, k)\<close> standing for \<open>m / 2 ^ k\<close>.
  \<^verbatim>\<open>adjustFactor = 1.5\<close> is \<open>3 / 2\<close>; the literal \<^verbatim>\<open>1.1\<close> is not a binary
  fraction, its nearest binary64 value is \<open>4953959590107546 / 2 ^ 52\<close>.
\<close>

definition adjustFactor :: "nat \<times> nat" where "adjustFactor = (3, 1)"
definition ceilingFactor :: "nat \<times> nat" where "ceilingFactor = (4953959590107546, 52)"

text \<open>
  \<open>round53 a\<close> rounds a natural number to 53 significant bits, to nearest and ties
  to even: the rounding of every binary64 operation, on the mantissa.
  \<open>scaleDuration d f\<close> is \<^verbatim>\<open>time.Duration(float64(d) * f)\<close>: the conversion to
  binary64, the rounded product, and the truncation towards zero of the conversion
  back (exponent range and the int64 range are not exceeded by the durations of the
  retry loop, which stay below 23 seconds).
\<close>

definition round53 :: "nat \<Rightarrow> nat" where
  "round53 a =
     (let s = nat (bitlen (int a) - 53); q = a div 2 ^ s; r = a mod 2 ^ s
      in if 2 * r > 2 ^ s \<or> (2 * r = 2 ^ s \<and> odd q) then (q + 1) * 2 ^ s else q * 2 ^ s)"

definition scaleDuration :: "int \<Rightarrow> nat \<times> nat \<Rightarrow> int" where
  "scaleDuration d f =
     (case f of (m, k) \<Rightarrow> sgn d * int (round53 (round53 (nat \<bar>d\<bar>) * m) div 2 ^ k))"

record VtexClient =
  vtexBaseURL :: string
  oktaURL :: string
  oktaClientID :: string
  oktaSecret :: string
  oktaGrantType :: string
  oktaScope :: string
  token :: string
  tokenExpiry :: int

record UserRole =
  Email :: string
  Name :: string
  Account :: string
  RoleName :: string

record UserRoleRequest =
  Users :: "UserRole list"

text \<open>\<^verbatim>\<open>ExpiresIn\<close> is a Go \<^verbatim>\<open>int\<close>: 64 bits on the platforms Terraform runs on.\<close>

record OktaTokenResponse =
  AccessToken :: string
  TokenType :: string
  ExpiresIn :: "64 word"

text \<open>The zero \<^verbatim>\<open>time.Time{}\<close>: 1 January of year 1, UTC.\<close>

definition zeroTime :: int where "zeroTime = - 62135596800 * Second"

subsection \<open>The environment and the state of a run\<close>

text \<open>
  What \<^verbatim>\<open>httpClient.Do\<close> gives back: a transport error, or a response with its
  status code and body. For the token endpoint the reply also carries what
  \<^verbatim>\<open>json.NewDecoder(resp.Body).Decode\<close> makes of the body.
\<close>

datatype http_reply = TransportError string | Response int string

datatype okta_reply =
  OktaTransportError string
| OktaResponse int string "string + OktaTokenResponse"

record env =
  now :: "nat \<Rightarrow> int"
  oktaDo :: "nat \<Rightarrow> okta_reply"
  vtexDo :: "nat \<Rightarrow> http_reply"
  newRequest :: "string \<Rightarrow> string \<Rightarrow> string option"
  jsonMarshal :: "UserRoleRequest \<Rightarrow> string + string"

text \<open>
  What a run does to the world, in order: a call of the token endpoint, a forced
  refresh (\<^verbatim>\<open>refreshToken\<close>), a request sent to VTEX (method, URL, bearer token,
  body) and a \<^verbatim>\<open>time.Sleep\<close>.
\<close>

datatype event =
  TokenFetch
| ForcedRefresh
| Request string string string string
| Sleep int

record exec_state = VtexClient +
  timeReads :: nat
  oktaCalls :: nat
  vtexCalls :: nat
  trace :: "event list"

datatype token_error =
  ErrCreatingTokenRequest string
| ErrRequestingToken string
| ErrObtainingToken int string
| ErrDecodingToken string

datatype exec_error =
  ErrGettingToken token_error
| ErrMarshaling string
| ErrCreatingRequest string
| ErrRefreshingToken token_error
| ErrRequestFailed int string
| ErrMaxRetries nat

subsection \<open>The token manager\<close>

text \<open>
  \<open>cachedValid\<close> is the test \<^verbatim>\<open>c.token != "" && time.Now().Before(c.tokenExpiry)\<close>;
  the clock is read only when the token is not empty.
\<close>

definition cachedValid :: "env \<Rightarrow> exec_state \<Rightarrow> bool \<times> exec_state" where
  "cachedValid e s =
     (if token s \<noteq> []
      then (now e (timeReads s) < tokenExpiry s, s\<lparr>timeReads := Suc (timeReads s)\<rparr>)
      else (False, s))"

definition fetchToken :: "env \<Rightarrow> exec_state \<Rightarrow> (token_error + string) \<times> exec_state" where
  "fetchToken e s =
     (case newRequest e ''POST'' (oktaURL s) of
        Some err \<Rightarrow> (Inl (ErrCreatingTokenRequest err), s)
      | None \<Rightarrow>
          let s1 = s\<lparr>oktaCalls := Suc (oktaCalls s), trace := trace s @ [TokenFetch]\<rparr>
          in (case oktaDo e (oktaCalls s) of
                OktaTransportError err \<Rightarrow> (Inl (ErrRequestingToken err), s1)
              | OktaResponse status body decoded \<Rightarrow>
                  if status \<noteq> 200 then (Inl (ErrObtainingToken status body), s1)
                  else
                    (case decoded of
                       Inl err \<Rightarrow> (Inl (ErrDecodingToken err), s1)
                     | Inr tokenResp \<Rightarrow>
                         let s2 = s1\<lparr>token := AccessToken tokenResp\<rparr>;
                             s3 = s2\<lparr>tokenExpiry :=
                                       now e (timeReads s2)
                                         + sint ((ExpiresIn tokenResp - 300) * 1000000000),
                                     timeReads := Suc (timeReads s2)\<rparr>
                         in (Inr (token s3), s3))))"

definition getToken :: "env \<Rightarrow> exec_state \<Rightarrow> (token_error + string) \<times> exec_state" where
  "getToken e s =
     (case cachedValid e s of
        (True, s1) \<Rightarrow> (Inr (token s1), s1)
      | (False, s1) \<Rightarrow>
          (case cachedValid e s1 of
             (True, s2) \<Rightarrow> (Inr (token s2), s2)
           | (False, s2) \<Rightarrow> fetchToken e s2))"

definition refreshToken :: "env \<Rightarrow> exec_state \<Rightarrow> (token_error + string) \<times> exec_state" where
  "refreshToken e s =
     getToken e (s\<lparr>token := [], tokenExpiry := zeroTime, trace := trace s @ [ForcedRefresh]\<rparr>)"

subsection \<open>The request executor\<close>

text \<open>
  One pass through the body of the loop of \<^verbatim>\<open>doRequestWithRetry\<close> either returns
  (\<open>Return\<close>, with \<open>None\<close> for \<^verbatim>\<open>nil\<close>) or reaches a \<^verbatim>\<open>continue\<close> with new values
  of \<^verbatim>\<open>currentWait\<close> and \<^verbatim>\<open>currentMaxWait\<close>.
\<close>

datatype flow = Return "exec_error option" | Continue int int

definition sleep :: "int \<Rightarrow> exec_state \<Rightarrow> exec_state" where
  "sleep d s = s\<lparr>trace := trace s @ [Sleep d]\<rparr>"

definition iteration ::
  "env \<Rightarrow> string \<Rightarrow> string \<Rightarrow> UserRoleRequest \<Rightarrow> int \<Rightarrow> int \<Rightarrow> exec_state
     \<Rightarrow> flow \<times> exec_state" where
  "iteration e meth endpoint payload currentWait currentMaxWait s =
     (case getToken e s of
        (Inl err, s1) \<Rightarrow> (Return (Some (ErrGettingToken err)), s1)
      | (Inr tok, s1) \<Rightarrow>
          (case jsonMarshal e payload of
             Inl err \<Rightarrow> (Return (Some (ErrMarshaling err)), s1)
           | Inr jsonData \<Rightarrow>
               (case newRequest e meth (vtexBaseURL s1 @ endpoint) of
                  Some err \<Rightarrow> (Return (Some (ErrCreatingRequest err)), s1)
                | None \<Rightarrow>
                    let s2 = s1\<lparr>vtexCalls := Suc (vtexCalls s1),
                                trace := trace s1
                                  @ [Request meth (vtexBaseURL s1 @ endpoint) tok jsonData]\<rparr>
                    in (case vtexDo e (vtexCalls s1) of
                         TransportError err \<Rightarrow>
                           (Continue (min (scaleDuration currentWait adjustFactor) currentMaxWait)
                              currentMaxWait,
                            sleep currentWait s2)
                       | Response status body \<Rightarrow>
                           if 200 \<le> status \<and> status < 300 then (Return None, s2)
                           else if status = 401 \<or> status = 403 then
                             (case refreshToken e s2 of
                                (Inl err, s3) \<Rightarrow> (Return (Some (ErrRefreshingToken err)), s3)
                              | (Inr _, s3) \<Rightarrow> (Continue currentWait currentMaxWait, s3))
                           else if status = 404 \<or> status = 504 \<or> status = 429 then
                             (Continue (min (scaleDuration currentWait adjustFactor) currentMaxWait)
                                (min (scaleDuration currentMaxWait ceilingFactor) (15 * Second)),
                              sleep currentWait s2)
                           else if status \<ge> 500 then
                             (Continue (min (scaleDuration currentWait adjustFactor) currentMaxWait)
                                currentMaxWait,
                              sleep currentWait s2)
                           else (Return (Some (ErrRequestFailed status body)), s2)))))"

function retryLoop ::
  "env \<Rightarrow> string \<Rightarrow> string \<Rightarrow> UserRoleRequest \<Rightarrow> nat \<Rightarrow> int \<Rightarrow> int \<Rightarrow> exec_state
     \<Rightarrow> exec_error option \<times> exec_state" where
  "retryLoop e meth endpoint payload attempt currentWait currentMaxWait s =
     (if attempt < maxRetries then
        (case iteration e meth endpoint payload currentWait currentMaxWait s of
           (Return r, s') \<Rightarrow> (r, s')
         | (Continue w m, s') \<Rightarrow> retryLoop e meth endpoint payload (attempt + 1) w m s')
      else (Some (ErrMaxRetries maxRetries), s))"
  by pat_completeness auto
termination
  by (relation "measure (\<lambda>(e, meth, endpoint, payload, attempt, w, m, s). maxRetries - attempt)")
    auto

declare retryLoop.simps [simp del]

definition doRequestWithRetry ::
  "env \<Rightarrow> string \<Rightarrow> string \<Rightarrow> UserRoleRequest \<Rightarrow> exec_state
     \<Rightarrow> exec_error option \<times> exec_state" where
  "doRequestWithRetry e meth endpoint payload s =
     retryLoop e meth endpoint payload 0 baseWait maxWait s"

definition CreateUserRole :: "env \<Rightarrow> UserRole \<Rightarrow> exec_state \<Rightarrow> exec_error option \<times> exec_state" where
  "CreateUserRole e user s =
     doRequestWithRetry e ''POST'' ''/_v/create-user-role'' \<lparr>Users = [user]\<rparr> s"

definition DeleteUserRole :: "env \<Rightarrow> UserRole \<Rightarrow> exec_state \<Rightarrow> exec_error option \<times> exec_state" where
  "DeleteUserRole e user s =
     doRequestWithRetry e ''POST'' ''/_v/remove-user-role'' \<lparr>Users = [user]\<rparr> s"

subsection \<open>Error messages\<close>

text \<open>The text of an error, as \<^verbatim>\<open>fmt.Errorf\<close> builds it (\<^verbatim>\<open>%d\<close> prints in decimal).\<close>

fun digits :: "nat \<Rightarrow> string" where
  "digits n =
     (if n < 10 then [''0123456789'' ! n]
      else digits (n div 10) @ [''0123456789'' ! (n mod 10)])"

declare digits.simps [simp del]

definition itoa :: "int \<Rightarrow> string" where
  "itoa i = (if i < 0 then CHR ''-'' # digits (nat (- i)) else digits (nat i))"

fun tokenErrorString :: "token_error \<Rightarrow> string" where
  "tokenErrorString (ErrCreatingTokenRequest err) = ''error creating token request: '' @ err"
| "tokenErrorString (ErrRequestingToken err) = ''error requesting token: '' @ err"
| "tokenErrorString (ErrObtainingToken status body) =
     ''error obtaining token: status '' @ itoa status @ '', body: '' @ body"
| "tokenErrorString (ErrDecodingToken err) = ''error decoding token response: '' @ err"

fun errorString :: "exec_error \<Rightarrow> string" where
  "errorString (ErrGettingToken err) = ''error getting token: '' @ tokenErrorString err"
| "errorString (ErrMarshaling err) = ''error marshaling request: '' @ err"
| "errorString (ErrCreatingRequest err) = ''error creating request: '' @ err"
| "errorString (ErrRefreshingToken err) = ''error refreshing token: '' @ tokenErrorString err"
| "errorString (ErrRequestFailed status body) =
     ''request failed: status '' @ itoa status @ '', body: '' @ body"
| "errorString (ErrMaxRetries n) = ''max retries ('' @ itoa (int n) @ '') exceeded''"

subsection \<open>The user-role resource\<close>

text \<open>
  A \<^verbatim>\<open>types.String\<close> of the plugin framework is null, unknown or a known string;
  \<^verbatim>\<open>ValueString\<close> reads the first two as the empty string. The fields of the
  resource model are named by their \<^verbatim>\<open>tfsdk\<close> tags. The state of a response is the
  map from attribute names to values; diagnostics are a list, to which the framework
  adds a diagnostic only when it is not there yet. Reading the plan and writing the
  state are the framework's: the plan arrives as the diagnostics and the model that
  \<^verbatim>\<open>req.Plan.Get\<close> produces, and writing the state raises no diagnostic. The resource
  is configured (\<^verbatim>\<open>r.client\<close> is not nil), and logging is left out.
\<close>

datatype tf_string = Null | Unknown | Known string

fun ValueString :: "tf_string \<Rightarrow> string" where
  "ValueString (Known v) = v"
| "ValueString Null = []"
| "ValueString Unknown = []"

record VtexUserRoleResourceModel =
  attr_id :: tf_string
  attr_email :: tf_string
  attr_name :: tf_string
  attr_account :: tf_string
  attr_role_name :: tf_string

datatype severity = SeverityError | SeverityWarning

type_synonym diagnostic = "severity \<times> string \<times> string"

record response =
  diagnostics :: "diagnostic list"
  state :: "string \<rightharpoonup> tf_string"

datatype panic = IndexOutOfRange

definition Append :: "diagnostic list \<Rightarrow> diagnostic list \<Rightarrow> diagnostic list" where
  "Append ds new = foldl (\<lambda>acc d. if d \<in> set acc then acc else acc @ [d]) ds new"

definition AddError :: "string \<Rightarrow> string \<Rightarrow> response \<Rightarrow> response" where
  "AddError summary detail resp =
     resp\<lparr>diagnostics := Append (diagnostics resp) [(SeverityError, summary, detail)]\<rparr>"

definition HasError :: "diagnostic list \<Rightarrow> bool" where
  "HasError ds = (\<exists>d \<in> set ds. fst d = SeverityError)"

definition SetAttribute :: "string \<Rightarrow> string \<Rightarrow> response \<Rightarrow> response" where
  "SetAttribute attr v resp = resp\<lparr>state := (state resp)(attr \<mapsto> Known v)\<rparr>"

definition StateSet :: "VtexUserRoleResourceModel \<Rightarrow> response \<Rightarrow> response" where
  "StateSet data resp =
     resp\<lparr>state := [''id'' \<mapsto> attr_id data, ''email'' \<mapsto> attr_email data,
                      ''name'' \<mapsto> attr_name data, ''account'' \<mapsto> attr_account data,
                      ''role_name'' \<mapsto> attr_role_name data]\<rparr>"

definition Create ::
  "env \<Rightarrow> diagnostic list \<times> VtexUserRoleResourceModel \<Rightarrow> response \<Rightarrow> exec_state
     \<Rightarrow> (panic + response) \<times> exec_state" where
  "Create e plan resp s =
     (case plan of (planDiags, data0) \<Rightarrow>
        let resp1 = resp\<lparr>diagnostics := Append (diagnostics resp) planDiags\<rparr>
        in if HasError (diagnostics resp1) then (Inr resp1, s)
           else
             (case (if ValueString (attr_name data0) = []
                    then (case Split (ValueString (attr_email data0)) CHR ''@'' of
                            [] \<Rightarrow> Inl IndexOutOfRange
                          | p # _ \<Rightarrow> Inr (p, data0\<lparr>attr_name := Known p\<rparr>))
                    else Inr (ValueString (attr_name data0), data0)) of
                Inl p \<Rightarrow> (Inl p, s)
              | Inr (name, data) \<Rightarrow>
                  let userRole = \<lparr>Email = ValueString (attr_email data), Name = name,
                                  Account = ValueString (attr_account data),
                                  RoleName = ValueString (attr_role_name data)\<rparr>
                  in (case CreateUserRole e userRole s of
                       (Some err, s') \<Rightarrow>
                         (Inr (AddError ''Error Creating VTEX User Role''
                                 (''Could not create user role, unexpected error: ''
                                    @ errorString err) resp1),
                          s')
                     | (None, s') \<Rightarrow>
                         (Inr (StateSet
                                 (data\<lparr>attr_id := Known (ValueString (attr_email data) @ '':''
                                           @ ValueString (attr_account data) @ '':''
                                           @ ValueString (attr_role_name data))\<rparr>)
                                 resp1),
                          s'))))"

definition ImportState :: "string \<Rightarrow> response \<Rightarrow> panic + response" where
  "ImportState reqID resp =
     (let parts = SplitN reqID CHR '':'' 3
      in if length parts \<noteq> 3 then
           Inr (AddError ''Invalid Import ID''
                  (''Expected import ID format: email:account:role_name, got: '' @ reqID) resp)
         else
           let resp1 = SetAttribute ''id'' reqID resp;
               resp2 = SetAttribute ''email'' (parts ! 0) resp1;
               resp3 = SetAttribute ''account'' (parts ! 1) resp2;
               resp4 = SetAttribute ''role_name'' (parts ! 2) resp3
           in (case Split (parts ! 0) CHR ''@'' of
                 [] \<Rightarrow> Inl IndexOutOfRange
               | p # _ \<Rightarrow> Inr (SetAttribute ''name'' p resp4)))"

subsection \<open>Observing a run\<close>

text \<open>
  The events that a run from \<open>s\<close> to \<open>s'\<close> added to the trace, the durations slept
  among some events, the replies of VTEX consumed between two states, and the classes
  of a reply in the order in which the loop tests them.
\<close>

definition newEvents :: "exec_state \<Rightarrow> exec_state \<Rightarrow> event list" where
  "newEvents s s' = drop (length (trace s)) (trace s')"

fun sleeps :: "event list \<Rightarrow> int list" where
  "sleeps [] = []"
| "sleeps (Sleep d # es) = d # sleeps es"
| "sleeps (TokenFetch # es) = sleeps es"
| "sleeps (ForcedRefresh # es) = sleeps es"
| "sleeps (Request meth url tok body # es) = sleeps es"

definition replies :: "env \<Rightarrow> exec_state \<Rightarrow> exec_state \<Rightarrow> http_reply list" where
  "replies e s s' = map (vtexDo e) [vtexCalls s ..< vtexCalls s']"

fun succeeded :: "http_reply \<Rightarrow> bool" where
  "succeeded (TransportError err) = False"
| "succeeded (Response status body) = (200 \<le> status \<and> status < 300)"

fun authRejected :: "http_reply \<Rightarrow> bool" where
  "authRejected (TransportError err) = False"
| "authRejected (Response status body) = (status = 401 \<or> status = 403)"

fun rateLimited :: "http_reply \<Rightarrow> bool" where
  "rateLimited (TransportError err) = False"
| "rateLimited (Response status body) = (status = 404 \<or> status = 504 \<or> status = 429)"

fun transient :: "http_reply \<Rightarrow> bool" where
  "transient (TransportError err) = True"
| "transient (Response status body) = (status = 404 \<or> status = 429 \<or> 500 \<le> status)"

text \<open>
  The backoff schedule in the words of the specification: two accumulators, the wait
  (100 ms at first, times 1.5 per transient failure, capped at the ceiling) and the
  ceiling (5 s at first, times 1.1 per rate-limit-class reply, capped at 15 s), both
  in whole nanoseconds. \<open>backoff w m rs\<close> lists the waits that the replies \<open>rs\<close>
  cause; \<open>ceilingAfter k\<close> is the ceiling after \<open>k\<close> rate-limit-class replies.
\<close>

fun backoff :: "int \<Rightarrow> int \<Rightarrow> http_reply list \<Rightarrow> int list" where
  "backoff w m [] = []"
| "backoff w m (r # rs) =
     (if rateLimited r then
        w # backoff (min (3 * w div 2) m) (min (11 * m div 10) (15 * Second)) rs
      else if transient r then w # backoff (min (3 * w div 2) m) m rs
      else if authRejected r then backoff w m rs
      else [])"

fun ceilingAfter :: "nat \<Rightarrow> int" where
  "ceilingAfter 0 = 5 * Second"
| "ceilingAfter (Suc k) = min (11 * ceilingAfter k div 10) (15 * Second)"

text \<open>
  The heads of the loop that one call of \<^verbatim>\<open>doRequestWithRetry\<close> from state \<open>s0\<close>
  passes through: the attempt counter, \<^verbatim>\<open>currentWait\<close>, \<^verbatim>\<open>currentMaxWait\<close> and
  the state at the top of the loop.
\<close>

inductive loopHead ::
  "env \<Rightarrow> string \<Rightarrow> string \<Rightarrow> UserRoleRequest \<Rightarrow> exec_state
     \<Rightarrow> nat \<Rightarrow> int \<Rightarrow> int \<Rightarrow> exec_state \<Rightarrow> bool"
  for e meth endpoint payload s0 where
  start: "loopHead e meth endpoint payload s0 0 baseWait maxWait s0"
| step: "loopHead e meth endpoint payload s0 attempt w m s \<Longrightarrow> attempt < maxRetries \<Longrightarrow>
         iteration e meth endpoint payload w m s = (Continue w' m', s') \<Longrightarrow>
         loopHead e meth endpoint payload s0 (attempt + 1) w' m' s'"

text \<open>
  Two conditions on the environment under which \<^verbatim>\<open>getToken\<close> cannot fail: the
  cached token stays valid, or the token endpoint answers every call with a decodable
  200.
\<close>

definition cachedForever :: "env \<Rightarrow> exec_state \<Rightarrow> bool" where
  "cachedForever e s \<longleftrightarrow> token s \<noteq> [] \<and> (\<forall>n. now e n < tokenExpiry s)"

definition tokenServiceUp :: "env \<Rightarrow> exec_state \<Rightarrow> bool" where
  "tokenServiceUp e s \<longleftrightarrow>
     newRequest e ''POST'' (oktaURL s) = None
     \<and> (\<forall>n. \<exists>body r. oktaDo e n = OktaResponse 200 body (Inr r))"

definition tokenAvailable :: "env \<Rightarrow> exec_state \<Rightarrow> bool" where
  "tokenAvailable e s \<longleftrightarrow> cachedForever e s \<or> tokenServiceUp e s"

subsection \<open>Concrete environments and states\<close>

text \<open>
  Inputs on which the theorems below are evaluated: a scripted endpoint (\<open>replay\<close>
  answers the \<open>n\<close>-th call with the \<open>n\<close>-th element of a list, and with a default
  once the list is used up), an environment in which requests can always be built and
  marshalled, a client without a token and a client with a cached one.
\<close>

definition replay :: "'a list \<Rightarrow> 'a \<Rightarrow> nat \<Rightarrow> 'a" where
  "replay xs d n = (if n < length xs then xs ! n else d)"

definition demoEnv :: "(nat \<Rightarrow> int) \<Rightarrow> (nat \<Rightarrow> okta_reply) \<Rightarrow> (nat \<Rightarrow> http_reply) \<Rightarrow> env" where
  "demoEnv clock okta vtex =
     \<lparr>now = clock, oktaDo = okta, vtexDo = vtex,
      newRequest = (\<lambda>m u. None), jsonMarshal = (\<lambda>p. Inr ''{}'')\<rparr>"

definition freshToken :: okta_reply where
  "freshToken =
     OktaResponse 200 ''{}''
       (Inr \<lparr>AccessToken = ''fresh'', TokenType = ''Bearer'', ExpiresIn = 3600\<rparr>)"

definition demoClient :: exec_state where
  "demoClient =
     \<lparr>vtexBaseURL = ''https://vendor.myvtex.com'', oktaURL = ''https://okta.example/token'',
      oktaClientID = ''id'', oktaSecret = ''secret'', oktaGrantType = ''client_credentials'',
      oktaScope = ''vtex'', token = [], tokenExpiry = zeroTime,
      timeReads = 0, oktaCalls = 0, vtexCalls = 0, trace = []\<rparr>"

definition demoCached :: exec_state where
  "demoCached = demoClient\<lparr>token := ''cached'', tokenExpiry := 3300 * Second\<rparr>"

definition demoPayload :: UserRoleRequest where
  "demoPayload =
     \<lparr>Users = [\<lparr>Email = ''a@b.com'', Name = ''a'', Account = ''vendor'', RoleName = ''Owner''\<rparr>]\<rparr>"

definition demoPlan :: "string \<Rightarrow> VtexUserRoleResourceModel" where
  "demoPlan email =
     \<lparr>attr_id = Unknown, attr_email = Known email, attr_name = Unknown,
      attr_account = Known ''vendor'', attr_role_name = Known ''Owner''\<rparr>"

definition emptyResponse :: response where
  "emptyResponse = \<lparr>diagnostics = [], state = Map.empty\<rparr>"

section \<open>Properties\<close>

subsection \<open>Splitting strings\<close>

lemma splitLoop_no_sep: "c \<notin> set s \<Longrightarrow> splitLoop c n s = [s]"
  by (cases n) simp_all

lemma count_tl_dropWhile:
  "c \<in> set s \<Longrightarrow> count_list (tl (dropWhile (\<lambda>x. x \<noteq> c) s)) c = count_list s c - 1"
  by (induction s) auto

lemma count_list_pos_iff: "0 < count_list s c \<longleftrightarrow> c \<in> set s"
  by (induction s) auto

lemma length_splitLoop: "length (splitLoop c n s) = min n (count_list s c) + 1"
proof (induction n arbitrary: s)
  case 0
  then show ?case by simp
next
  case (Suc n)
  show ?case
  proof (cases "c \<in> set s")
    case True
    then have "0 < count_list s c" by (simp add: count_list_pos_iff)
    with True Suc show ?thesis by (simp add: count_tl_dropWhile)
  next
    case False
    then have "count_list s c = 0" by (simp add: count_list_0_iff)
    with False show ?thesis by simp
  qed
qed

lemma count_list_le_length: "count_list s c \<le> length s"
  by (induction s) auto

lemma SplitN_3: "SplitN s c 3 = splitLoop c (min 2 (length s)) s"
  by (auto simp: SplitN_def Let_def min_def)

lemma length_SplitN_3: "length (SplitN s c 3) = min 2 (count_list s c) + 1"
  using count_list_le_length [of s c] by (simp add: SplitN_3 length_splitLoop)

lemma Split_eq: "Split s c = splitLoop c (count_list s c) s"
  using count_list_le_length [of s c] by (simp add: Split_def SplitN_def Let_def)

lemma takeWhile_no_sep: "c \<notin> set s \<Longrightarrow> takeWhile (\<lambda>x. x \<noteq> c) s = s"
  by (induction s) auto

lemma Split_head: "\<exists>ps. Split s c = takeWhile (\<lambda>x. x \<noteq> c) s # ps"
proof (cases "c \<in> set s")
  case True
  then obtain k where "count_list s c = Suc k"
    using count_list_pos_iff [of s c] by (cases "count_list s c") auto
  with True show ?thesis by (simp add: Split_eq)
next
  case False
  then show ?thesis by (simp add: Split_eq splitLoop_no_sep takeWhile_no_sep)
qed

lemma SplitN_3_parts:
  assumes "2 \<le> count_list s c"
  shows "SplitN s c 3 =
    [takeWhile (\<lambda>x. x \<noteq> c) s,
     takeWhile (\<lambda>x. x \<noteq> c) (tl (dropWhile (\<lambda>x. x \<noteq> c) s)),
     tl (dropWhile (\<lambda>x. x \<noteq> c) (tl (dropWhile (\<lambda>x. x \<noteq> c) s)))]"
proof -
  from assms have len: "2 \<le> length s" using count_list_le_length [of s c] by linarith
  from assms have in1: "c \<in> set s" using count_list_pos_iff [of s c] by simp
  then have "count_list (tl (dropWhile (\<lambda>x. x \<noteq> c) s)) c = count_list s c - 1"
    by (rule count_tl_dropWhile)
  with assms have in2: "c \<in> set (tl (dropWhile (\<lambda>x. x \<noteq> c) s))"
    using count_list_pos_iff [of "tl (dropWhile (\<lambda>x. x \<noteq> c) s)" c] by simp
  from len have "min 2 (length s) = Suc (Suc 0)" by simp
  with in1 in2 show ?thesis by (simp add: SplitN_3)
qed

subsection \<open>Importing an identifier\<close>

lemma Append_single:
  "Append ds [d] = (if d \<in> set ds then ds else ds @ [d])"
  by (simp add: Append_def)

lemma ImportState_ok:
  assumes "2 \<le> count_list reqID CHR '':''"
  shows "ImportState reqID resp =
    Inr (resp\<lparr>state := (state resp)
      (''id'' \<mapsto> Known reqID,
       ''email'' \<mapsto> Known (takeWhile (\<lambda>x. x \<noteq> CHR '':'') reqID),
       ''account'' \<mapsto> Known (takeWhile (\<lambda>x. x \<noteq> CHR '':'')
                      (tl (dropWhile (\<lambda>x. x \<noteq> CHR '':'') reqID))),
       ''role_name'' \<mapsto> Known (tl (dropWhile (\<lambda>x. x \<noteq> CHR '':'')
                      (tl (dropWhile (\<lambda>x. x \<noteq> CHR '':'') reqID)))),
       ''name'' \<mapsto> Known (takeWhile (\<lambda>x. x \<noteq> CHR ''@'')
                      (takeWhile (\<lambda>x. x \<noteq> CHR '':'') reqID)))\<rparr>)"
proof -
  obtain ps where ps: "Split (takeWhile (\<lambda>x. x \<noteq> CHR '':'') reqID) CHR ''@'' =
      takeWhile (\<lambda>x. x \<noteq> CHR ''@'') (takeWhile (\<lambda>x. x \<noteq> CHR '':'') reqID) # ps"
    using Split_head by blast
  show ?thesis
    by (simp add: ImportState_def SplitN_3_parts [OF assms] ps SetAttribute_def)
qed

lemma ImportState_bad:
  assumes "count_list reqID CHR '':'' < 2"
  shows "ImportState reqID resp =
    Inr (AddError ''Invalid Import ID''
           (''Expected import ID format: email:account:role_name, got: '' @ reqID) resp)"
  using assms by (simp add: ImportState_def length_SplitN_3)

lemma count_list_append: "count_list (xs @ ys) c = count_list xs c + count_list ys c"
  by (induction xs) auto

lemma takeWhile_sep: "c \<notin> set xs \<Longrightarrow> takeWhile (\<lambda>x. x \<noteq> c) (xs @ c # ys) = xs"
  by (induction xs) auto

lemma dropWhile_sep: "c \<notin> set xs \<Longrightarrow> dropWhile (\<lambda>x. x \<noteq> c) (xs @ c # ys) = c # ys"
  by (induction xs) auto

lemma ImportState_join:
  assumes "CHR '':'' \<notin> set email" "CHR '':'' \<notin> set account"
  shows "ImportState (email @ '':'' @ account @ '':'' @ role) resp =
    Inr (resp\<lparr>state := (state resp)
      (''id'' \<mapsto> Known (email @ '':'' @ account @ '':'' @ role),
       ''email'' \<mapsto> Known email,
       ''account'' \<mapsto> Known account,
       ''role_name'' \<mapsto> Known role,
       ''name'' \<mapsto> Known (takeWhile (\<lambda>x. x \<noteq> CHR ''@'') email))\<rparr>)"
proof -
  have c: "2 \<le> count_list (email @ '':'' @ account @ '':'' @ role) CHR '':''"
    by (simp add: count_list_append)
  show ?thesis
    using assms ImportState_ok [OF c, of resp] by (simp add: takeWhile_sep dropWhile_sep)
qed

lemma AddError_props:
  "state (AddError a b r) = state r"
  "(SeverityError, a, b) \<in> set (diagnostics (AddError a b r))"
  "HasError (diagnostics (AddError a b r))"
  by (auto simp: AddError_def Append_single HasError_def intro: bexI [of _ "(SeverityError, a, b)"])

subsection \<open>The two scalings of the backoff in integer arithmetic\<close>

text \<open>
  The mantissa of \<open>ceilingFactor\<close> has 53 bits and lies within half a unit of
  \<open>1.1 * 2 ^ 52\<close>: the pair is the binary64 number nearest to 1.1. The mantissa of
  \<open>adjustFactor\<close> is exact.
\<close>

lemma ceilingFactor_nearest:
  "2 ^ 52 \<le> fst ceilingFactor \<and> fst ceilingFactor < 2 ^ 53 \<and> snd ceilingFactor = 52
   \<and> 2 * \<bar>10 * int (fst ceilingFactor) - 11 * 2 ^ 52\<bar> < 10"
  by (simp add: ceilingFactor_def)

lemma adjustFactor_exact: "2 * fst adjustFactor = 3 * 2 ^ snd adjustFactor"
  by (simp add: adjustFactor_def)

lemma round53_small: "a < 2 ^ 53 \<Longrightarrow> round53 a = a"
proof -
  assume "a < 2 ^ 53"
  then have "bitlen (int a) \<le> 53" using bitlen_le_iff_power [of "int a" 53] by simp
  then show ?thesis by (simp add: round53_def)
qed

lemma round53_bounds:
  fixes a :: nat
  defines "P \<equiv> (2::nat) ^ nat (bitlen (int a) - 53)"
  shows "(a div P) * P \<le> round53 a" and "round53 a \<le> (a div P) * P + P"
  by (simp_all add: round53_def Let_def P_def)

lemma scale_adjust:
  assumes "0 \<le> d" "d < 2 ^ 51"
  shows "scaleDuration d adjustFactor = 3 * d div 2"
proof -
  from assms have "nat d < 2 ^ 53" by (simp add: nat_less_iff)
  then have r1: "round53 (nat d) = nat d" by (rule round53_small)
  from assms have "nat d * 3 < 2 ^ 53" by (simp add: nat_less_iff)
  then have r2: "round53 (nat d * 3) = nat d * 3" by (rule round53_small)
  from assms(1) have a: "\<bar>d\<bar> = d" by simp
  show ?thesis
  proof (cases "d = 0")
    case True
    then show ?thesis by (simp add: scaleDuration_def adjustFactor_def)
  next
    case False
    with assms(1) have "sgn d = 1" by simp
    moreover have "int (nat d * 3 div 2) = 3 * d div 2"
      using assms(1) by (simp add: zdiv_int mult.commute)
    ultimately show ?thesis
      by (simp add: scaleDuration_def adjustFactor_def a r1 r2)
  qed
qed

lemma round53_times_ceiling:
  fixes x :: nat
  assumes x: "x < 2 ^ 34"
  shows "round53 (x * 4953959590107546) div 2 ^ 52 = 11 * x div 10"
proof -
  define a where "a = x * 4953959590107546"
  define s where "s = nat (bitlen (int a) - 53)"
  define P where "P = (2::nat) ^ s"
  define F where "F = 11 * x div 10"
  define K where "K = (4503599627370496::nat)"
  have K: "K = 2 ^ 52" by (simp add: K_def)
  have "a < 2 ^ 87"
  proof -
    have "a < 2 ^ 34 * 2 ^ 53" unfolding a_def
      using x by (intro mult_strict_mono) simp_all
    then show ?thesis by simp
  qed
  then have "bitlen (int a) \<le> 87" using bitlen_le_iff_power [of "int a" 87] by simp
  then have s: "s \<le> 34" by (simp add: s_def)
  then have P34: "P \<le> 2 ^ 34" unfolding P_def by (intro power_increasing) simp_all
  have Ppos: "0 < P" by (simp add: P_def)
  from s have "P dvd K" unfolding P_def K by (intro le_imp_power_dvd) simp
  then obtain c where c: "K = c * P" by (auto simp: dvd_def mult.commute)
  have ten: "10 * a = 11 * x * K + 4 * x" by (simp add: a_def K_def)
  have F1: "10 * F \<le> 11 * x" and F2: "11 * x < 10 * F + 10"
    by (simp_all add: F_def) 
  have lowa: "F * K \<le> a"
  proof -
    have "10 * (F * K) \<le> 11 * x * K" using F1 by (simp add: K_def)
    with ten show ?thesis by linarith
  qed
  have "(F * c * P) div P \<le> a div P"
    using lowa by (intro div_le_mono) (simp add: c mult.assoc)
  then have q: "F * c \<le> a div P" using Ppos by simp
  have "F * K = (F * c) * P" by (simp add: c mult.assoc)
  also have "\<dots> \<le> (a div P) * P" using q by (rule mult_le_mono1)
  also have "\<dots> \<le> round53 a"
    using round53_bounds(1) [of a] by (simp add: P_def s_def)
  finally have lower: "F * K \<le> round53 a" .
  have "round53 a \<le> (a div P) * P + P"
    using round53_bounds(2) [of a] by (simp add: P_def s_def)
  also have "\<dots> \<le> a + P" by simp
  finally have Ra: "round53 a \<le> a + P" .
  have "10 * (a + P) < 10 * ((F + 1) * K)"
  proof -
    have "4 * x + 10 * P < K" using x P34 by (simp add: K_def)
    moreover have "(11 * x + 1) * K \<le> (10 * (F + 1)) * K"
      using F2 by (intro mult_le_mono1) simp
    ultimately show ?thesis using ten by (simp add: algebra_simps)
  qed
  then have "a + P < (F + 1) * K" by simp
  with Ra have upper: "round53 a < (F + 1) * K" by (rule le_less_trans)
  have "round53 a div K = F"
    using lower upper by (intro div_nat_eqI) (simp_all add: mult.commute)
  then show ?thesis by (simp add: a_def F_def K_def)
qed

lemma scale_ceiling:
  assumes "0 \<le> d" "d < 2 ^ 34"
  shows "scaleDuration d ceilingFactor = 11 * d div 10"
proof -
  from assms have x: "nat d < 2 ^ 34" by (simp add: nat_less_iff)
  then have "nat d < 2 ^ 53" by simp
  then have r1: "round53 (nat d) = nat d" by (rule round53_small)
  from assms(1) have a: "\<bar>d\<bar> = d" by simp
  show ?thesis
  proof (cases "d = 0")
    case True
    then show ?thesis by (simp add: scaleDuration_def ceilingFactor_def)
  next
    case False
    with assms(1) have "sgn d = 1" by simp
    moreover have "int (11 * nat d div 10) = 11 * d div 10"
      using assms(1) by (simp add: zdiv_int)
    ultimately show ?thesis
      using round53_times_ceiling [OF x]
      by (simp add: scaleDuration_def ceilingFactor_def a r1)
  qed
qed

subsection \<open>What the token manager leaves alone\<close>

lemma retryLoop_done:
  "\<not> attempt < maxRetries \<Longrightarrow>
   retryLoop e me ep pl attempt w m s = (Some (ErrMaxRetries maxRetries), s)"
  by (subst retryLoop.simps) simp

lemma retryLoop_Return:
  "attempt < maxRetries \<Longrightarrow> iteration e me ep pl w m s = (Return r, s') \<Longrightarrow>
   retryLoop e me ep pl attempt w m s = (r, s')"
  by (subst retryLoop.simps) simp

lemma retryLoop_Continue:
  "attempt < maxRetries \<Longrightarrow> iteration e me ep pl w m s = (Continue w' m', s') \<Longrightarrow>
   retryLoop e me ep pl attempt w m s = retryLoop e me ep pl (attempt + 1) w' m' s'"
  by (subst retryLoop.simps) simp

lemma cachedValid_frame:
  assumes "cachedValid e s = (b, s1)"
  shows "token s1 = token s" "tokenExpiry s1 = tokenExpiry s" "oktaCalls s1 = oktaCalls s"
    "vtexCalls s1 = vtexCalls s" "trace s1 = trace s" "vtexBaseURL s1 = vtexBaseURL s"
    "oktaURL s1 = oktaURL s"
  using assms by (auto simp: cachedValid_def split: if_splits)

lemma fetchToken_frame:
  assumes "fetchToken e s = (r, s1)"
  shows "vtexCalls s1 = vtexCalls s" "vtexBaseURL s1 = vtexBaseURL s" "oktaURL s1 = oktaURL s"
    "trace s1 = trace s \<or> trace s1 = trace s @ [TokenFetch]"
    "oktaCalls s \<le> oktaCalls s1" "oktaCalls s1 \<le> Suc (oktaCalls s)"
  using assms
  by (auto simp: fetchToken_def Let_def
      split: option.splits okta_reply.splits sum.splits if_splits)

lemma getToken_cases:
  obtains (fast1) s1 where "cachedValid e s = (True, s1)" "getToken e s = (Inr (token s1), s1)"
  | (fast2) s1 s2 where "cachedValid e s = (False, s1)" "cachedValid e s1 = (True, s2)"
      "getToken e s = (Inr (token s2), s2)"
  | (fetch) s1 s2 where "cachedValid e s = (False, s1)" "cachedValid e s1 = (False, s2)"
      "getToken e s = fetchToken e s2"
proof -
  obtain b1 s1 where c1: "cachedValid e s = (b1, s1)" by (cases "cachedValid e s")
  obtain b2 s2 where c2: "cachedValid e s1 = (b2, s2)" by (cases "cachedValid e s1")
  show thesis
  proof (cases b1)
    case True
    with c1 show thesis by (intro fast1 [of s1]) (simp_all add: getToken_def)
  next
    case b1: False
    show thesis
    proof (cases b2)
      case True
      with c1 c2 b1 show thesis by (intro fast2 [of s1 s2]) (simp_all add: getToken_def)
    next
      case False
      with c1 c2 b1 show thesis by (intro fetch [of s1 s2]) (simp_all add: getToken_def)
    qed
  qed
qed

lemma getToken_frame:
  assumes "getToken e s = (r, s')"
  shows "vtexCalls s' = vtexCalls s" "vtexBaseURL s' = vtexBaseURL s" "oktaURL s' = oktaURL s"
    "trace s' = trace s \<or> trace s' = trace s @ [TokenFetch]"
    "oktaCalls s \<le> oktaCalls s'" "oktaCalls s' \<le> Suc (oktaCalls s)"
proof -
  have "vtexCalls s' = vtexCalls s \<and> vtexBaseURL s' = vtexBaseURL s \<and> oktaURL s' = oktaURL s
    \<and> (trace s' = trace s \<or> trace s' = trace s @ [TokenFetch])
    \<and> oktaCalls s \<le> oktaCalls s' \<and> oktaCalls s' \<le> Suc (oktaCalls s)"
  proof (cases rule: getToken_cases [of e s])
    case (fast1 s1)
    with assms cachedValid_frame [OF fast1(1)] show ?thesis by simp
  next
    case (fast2 s1 s2)
    with assms cachedValid_frame [OF fast2(1)] cachedValid_frame [OF fast2(2)]
    show ?thesis by simp
  next
    case (fetch s1 s2)
    with assms have f: "fetchToken e s2 = (r, s')" by simp
    show ?thesis
      using fetchToken_frame [OF f] cachedValid_frame [OF fetch(1)] cachedValid_frame [OF fetch(2)]
      by simp
  qed
  then show "vtexCalls s' = vtexCalls s" "vtexBaseURL s' = vtexBaseURL s" "oktaURL s' = oktaURL s"
    "trace s' = trace s \<or> trace s' = trace s @ [TokenFetch]"
    "oktaCalls s \<le> oktaCalls s'" "oktaCalls s' \<le> Suc (oktaCalls s)"
    by simp_all
qed

lemma getToken_fast:
  assumes "token s \<noteq> []" "now e (timeReads s) < tokenExpiry s"
  shows "getToken e s = (Inr (token s), s\<lparr>timeReads := Suc (timeReads s)\<rparr>)"
  using assms by (simp add: getToken_def cachedValid_def)

lemma refreshToken_fetch:
  "refreshToken e s =
   fetchToken e (s\<lparr>token := [], tokenExpiry := zeroTime, trace := trace s @ [ForcedRefresh]\<rparr>)"
  by (simp add: refreshToken_def getToken_def cachedValid_def)

lemma refreshToken_frame:
  assumes "refreshToken e s = (r, s')"
  shows "vtexCalls s' = vtexCalls s" "vtexBaseURL s' = vtexBaseURL s" "oktaURL s' = oktaURL s"
    "trace s' = trace s @ [ForcedRefresh] \<or> trace s' = trace s @ [ForcedRefresh, TokenFetch]"
    "oktaCalls s \<le> oktaCalls s'" "oktaCalls s' \<le> Suc (oktaCalls s)"
  using assms fetchToken_frame [of e "s\<lparr>token := [], tokenExpiry := zeroTime, trace := trace s @ [ForcedRefresh]\<rparr>" r s']
  by (simp_all add: refreshToken_fetch)

subsection \<open>One pass through the loop\<close>

lemma newEvents_ext: "trace s' = trace s @ evs \<Longrightarrow> newEvents s s' = evs"
  by (simp add: newEvents_def)

lemma sleeps_append: "sleeps (xs @ ys) = sleeps xs @ sleeps ys"
  by (induction xs rule: sleeps.induct) simp_all

lemma iteration_sent:
  assumes "getToken e s = (Inr tok, s1)" "jsonMarshal e pl = Inr body"
    "newRequest e me (vtexBaseURL s @ ep) = None"
  shows "iteration e me ep pl w m s =
    (let s2 = s1\<lparr>vtexCalls := Suc (vtexCalls s),
                 trace := trace s1 @ [Request me (vtexBaseURL s @ ep) tok body]\<rparr>
     in case vtexDo e (vtexCalls s) of
          TransportError err \<Rightarrow>
            (Continue (min (scaleDuration w adjustFactor) m) m, sleep w s2)
        | Response status b \<Rightarrow>
            if 200 \<le> status \<and> status < 300 then (Return None, s2)
            else if status = 401 \<or> status = 403 then
              (case refreshToken e s2 of
                 (Inl err, s3) \<Rightarrow> (Return (Some (ErrRefreshingToken err)), s3)
               | (Inr x, s3) \<Rightarrow> (Continue w m, s3))
            else if status = 404 \<or> status = 504 \<or> status = 429 then
              (Continue (min (scaleDuration w adjustFactor) m)
                 (min (scaleDuration m ceilingFactor) (15 * Second)),
               sleep w s2)
            else if status \<ge> 500 then
              (Continue (min (scaleDuration w adjustFactor) m) m, sleep w s2)
            else (Return (Some (ErrRequestFailed status b)), s2))"
  using assms getToken_frame(1,2) [OF assms(1)]
  by (simp add: iteration_def Let_def)

lemma iteration_unsent:
  assumes "getToken e s = (gr, s1)"
    and "(\<exists>err. gr = Inl err) \<or> (\<exists>err. jsonMarshal e pl = Inl err)
         \<or> (\<exists>err. newRequest e me (vtexBaseURL s @ ep) = Some err)"
  shows "\<exists>r. iteration e me ep pl w m s = (Return (Some r), s1)"
  using assms getToken_frame(1,2) [OF assms(1)]
  by (auto simp: iteration_def Let_def split: sum.splits option.splits)

lemma iteration_Continue:
  assumes it: "iteration e me ep pl w m s = (Continue w' m', s')"
  defines "r \<equiv> vtexDo e (vtexCalls s)"
  shows "vtexCalls s' = Suc (vtexCalls s)"
    and "vtexBaseURL s' = vtexBaseURL s"
    and "oktaURL s' = oktaURL s"
    and "transient r \<or> authRejected r"
    and "\<not> succeeded r"
    and "w' = (if transient r then min (scaleDuration w adjustFactor) m else w)"
    and "m' = (if rateLimited r then min (scaleDuration m ceilingFactor) (15 * Second) else m)"
    and "\<exists>evs. trace s' = trace s @ evs \<and> sleeps evs = (if transient r then [w] else [])
           \<and> count_list evs ForcedRefresh = (if transient r then 0 else 1)"
proof -
  obtain gr s1 where g: "getToken e s = (gr, s1)" by (cases "getToken e s")
  note fr = getToken_frame [OF g]
  have sent: "\<exists>tok body. gr = Inr tok \<and> jsonMarshal e pl = Inr body
      \<and> newRequest e me (vtexBaseURL s @ ep) = None"
  proof (rule ccontr)
    assume "\<not> ?thesis"
    then have "(\<exists>err. gr = Inl err) \<or> (\<exists>err. jsonMarshal e pl = Inl err)
         \<or> (\<exists>err. newRequest e me (vtexBaseURL s @ ep) = Some err)"
      by (cases gr; cases "jsonMarshal e pl"; cases "newRequest e me (vtexBaseURL s @ ep)") auto
    from iteration_unsent [OF g this, of w m] it show False by auto
  qed
  then obtain tok body where gr: "gr = Inr tok" and ma: "jsonMarshal e pl = Inr body"
    and nr: "newRequest e me (vtexBaseURL s @ ep) = None" by blast
  define s2 where "s2 = s1\<lparr>vtexCalls := Suc (vtexCalls s),
                 trace := trace s1 @ [Request me (vtexBaseURL s @ ep) tok body]\<rparr>"
  have s2: "vtexCalls s2 = Suc (vtexCalls s)" "vtexBaseURL s2 = vtexBaseURL s"
    "oktaURL s2 = oktaURL s"
    "\<exists>evs. trace s2 = trace s @ evs \<and> sleeps evs = [] \<and> count_list evs ForcedRefresh = 0"
    using fr by (auto simp: s2_def)
  note eq = iteration_sent [OF g [unfolded gr] ma nr, of w m, folded s2_def]
  have all: "vtexCalls s' = Suc (vtexCalls s) \<and> vtexBaseURL s' = vtexBaseURL s
    \<and> oktaURL s' = oktaURL s \<and> (transient r \<or> authRejected r) \<and> \<not> succeeded r
    \<and> w' = (if transient r then min (scaleDuration w adjustFactor) m else w)
    \<and> m' = (if rateLimited r then min (scaleDuration m ceilingFactor) (15 * Second) else m)
    \<and> (\<exists>evs. trace s' = trace s @ evs \<and> sleeps evs = (if transient r then [w] else [])
           \<and> count_list evs ForcedRefresh = (if transient r then 0 else 1))"
  proof (cases r)
    case (TransportError err)
    with it eq s2 show ?thesis
      by (auto simp: r_def Let_def sleep_def sleeps_append)
  next
    case (Response status b)
    show ?thesis
    proof (cases "status = 401 \<or> status = 403")
      case True
      with it eq Response obtain x where rf: "refreshToken e s2 = (Inr x, s')"
        and wm: "w' = w" "m' = m"
        by (auto simp: r_def Let_def split: prod.splits sum.splits if_splits)
      from s2(4) obtain evs where evs: "trace s2 = trace s @ evs" "sleeps evs = []"
        "count_list evs ForcedRefresh = 0" by blast
      from refreshToken_frame [OF rf] s2 evs True Response wm show ?thesis
        by (auto simp: sleeps_append)
    next
      case False
      with it eq s2 Response show ?thesis
        by (auto simp: r_def Let_def sleep_def sleeps_append split: if_splits)
    qed
  qed
  then show "vtexCalls s' = Suc (vtexCalls s)"
    and "vtexBaseURL s' = vtexBaseURL s"
    and "oktaURL s' = oktaURL s"
    and "transient r \<or> authRejected r"
    and "\<not> succeeded r"
    and "w' = (if transient r then min (scaleDuration w adjustFactor) m else w)"
    and "m' = (if rateLimited r then min (scaleDuration m ceilingFactor) (15 * Second) else m)"
    and "\<exists>evs. trace s' = trace s @ evs \<and> sleeps evs = (if transient r then [w] else [])
           \<and> count_list evs ForcedRefresh = (if transient r then 0 else 1)"
    by blast+
qed

lemma iteration_Return:
  assumes it: "iteration e me ep pl w m s = (Return r, s')"
  shows "vtexBaseURL s' = vtexBaseURL s"
    and "oktaURL s' = oktaURL s"
    and "vtexCalls s' = vtexCalls s
         \<or> vtexCalls s' = Suc (vtexCalls s) \<and> \<not> transient (vtexDo e (vtexCalls s))"
    and "\<exists>evs. trace s' = trace s @ evs \<and> sleeps evs = []"
proof -
  obtain gr s1 where g: "getToken e s = (gr, s1)" by (cases "getToken e s")
  note fr = getToken_frame [OF g]
  have all: "vtexBaseURL s' = vtexBaseURL s \<and> oktaURL s' = oktaURL s
    \<and> (vtexCalls s' = vtexCalls s
         \<or> vtexCalls s' = Suc (vtexCalls s) \<and> \<not> transient (vtexDo e (vtexCalls s)))
    \<and> (\<exists>evs. trace s' = trace s @ evs \<and> sleeps evs = [])"
  proof (cases "\<exists>tok body. gr = Inr tok \<and> jsonMarshal e pl = Inr body
      \<and> newRequest e me (vtexBaseURL s @ ep) = None")
    case False
    then have "(\<exists>err. gr = Inl err) \<or> (\<exists>err. jsonMarshal e pl = Inl err)
         \<or> (\<exists>err. newRequest e me (vtexBaseURL s @ ep) = Some err)"
      by (cases gr; cases "jsonMarshal e pl"; cases "newRequest e me (vtexBaseURL s @ ep)") auto
    from iteration_unsent [OF g this, of w m] it have "s' = s1" by auto
    with fr show ?thesis by auto
  next
    case True
    then obtain tok body where gr: "gr = Inr tok" and ma: "jsonMarshal e pl = Inr body"
      and nr: "newRequest e me (vtexBaseURL s @ ep) = None" by blast
    define s2 where "s2 = s1\<lparr>vtexCalls := Suc (vtexCalls s),
                 trace := trace s1 @ [Request me (vtexBaseURL s @ ep) tok body]\<rparr>"
    have s2: "vtexCalls s2 = Suc (vtexCalls s)" "vtexBaseURL s2 = vtexBaseURL s"
      "oktaURL s2 = oktaURL s"
      "\<exists>evs. trace s2 = trace s @ evs \<and> sleeps evs = []"
      using fr by (auto simp: s2_def)
    note eq = iteration_sent [OF g [unfolded gr] ma nr, of w m, folded s2_def]
    show ?thesis
    proof (cases "vtexDo e (vtexCalls s)")
      case (TransportError err)
      with it eq show ?thesis by (simp add: Let_def)
    next
      case (Response status b)
      show ?thesis
      proof (cases "status = 401 \<or> status = 403")
        case True
        with it eq Response obtain x where rf: "refreshToken e s2 = (Inl x, s')"
          by (auto simp: Let_def split: prod.splits sum.splits if_splits)
        from s2(4) obtain evs where evs: "trace s2 = trace s @ evs" "sleeps evs = []" by blast
        from refreshToken_frame [OF rf] s2 evs True Response show ?thesis
          by (auto simp: sleeps_append)
      next
        case False
        with it eq s2 Response show ?thesis
          by (auto simp: Let_def split: if_splits)
      qed
    qed
  qed
  then show "vtexBaseURL s' = vtexBaseURL s"
    and "oktaURL s' = oktaURL s"
    and "vtexCalls s' = vtexCalls s
         \<or> vtexCalls s' = Suc (vtexCalls s) \<and> \<not> transient (vtexDo e (vtexCalls s))"
    and "\<exists>evs. trace s' = trace s @ evs \<and> sleeps evs = []"
    by blast+
qed

lemma backoff_range:
  assumes "0 < w" "w \<le> m" "m \<le> 15 * Second"
  shows "scaleDuration w adjustFactor = 3 * w div 2"
    and "scaleDuration m ceilingFactor = 11 * m div 10"
    and "0 < min (3 * w div 2) m"
    and "m \<le> min (11 * m div 10) (15 * Second)"
proof -
  from assms have m: "0 < m" "m < 2 ^ 34" and w: "0 \<le> w" "w < 2 ^ 51"
    by (simp_all add: Second_def)
  show "scaleDuration w adjustFactor = 3 * w div 2" using w by (rule scale_adjust)
  show "scaleDuration m ceilingFactor = 11 * m div 10" using m by (intro scale_ceiling) simp_all
  show "0 < min (3 * w div 2) m" using assms(1) m(1) by simp
  show "m \<le> min (11 * m div 10) (15 * Second)" using assms(3) m(1) by simp
qed

lemma rateLimited_transient: "rateLimited r \<Longrightarrow> transient r"
  by (cases r) auto

lemma transient_not_auth: "transient r \<Longrightarrow> \<not> authRejected r"
  by (cases r) auto

lemma replies_Cons:
  "vtexCalls s1 = Suc (vtexCalls s) \<Longrightarrow> vtexCalls s1 \<le> vtexCalls s' \<Longrightarrow>
   replies e s s' = vtexDo e (vtexCalls s) # replies e s1 s'"
  by (simp add: replies_def upt_conv_Cons)

lemma retryLoop_backoff:
  assumes "0 < w" "w \<le> m" "m \<le> 15 * Second"
    and "retryLoop e me ep pl attempt w m s = (r, s')"
  shows "vtexCalls s \<le> vtexCalls s' \<and> vtexCalls s' \<le> vtexCalls s + (maxRetries - attempt)
    \<and> (\<exists>evs. trace s' = trace s @ evs \<and> sleeps evs = backoff w m (replies e s s'))"
  using assms
proof (induction e me ep pl attempt w m s rule: retryLoop.induct)
  case (1 e me ep pl attempt w m s)
  show ?case
  proof (cases "attempt < maxRetries")
    case False
    with "1.prems"(4) have "s' = s" by (simp add: retryLoop_done)
    then show ?thesis by (simp add: replies_def)
  next
    case lt: True
    obtain fl s1 where it: "iteration e me ep pl w m s = (fl, s1)"
      by (cases "iteration e me ep pl w m s")
    show ?thesis
    proof (cases fl)
      case (Return r1)
      with it lt "1.prems"(4) have s': "s' = s1" by (simp add: retryLoop_Return)
      from iteration_Return(3,4) [OF it [unfolded Return]] s' lt show ?thesis
        by (auto simp: replies_def rateLimited_transient transient_not_auth
            dest: rateLimited_transient)
    next
      case (Continue w1 m1)
      note ic = iteration_Continue [OF it [unfolded Continue]]
      note br = backoff_range [OF "1.prems"(1-3)]
      let ?r = "vtexDo e (vtexCalls s)"
      have w1: "w1 = (if transient ?r then min (3 * w div 2) m else w)"
        using ic(6) br(1) by simp
      have m1: "m1 = (if rateLimited ?r then min (11 * m div 10) (15 * Second) else m)"
        using ic(7) br(2) by simp
      have inv: "0 < w1" "w1 \<le> m1" "m1 \<le> 15 * Second"
        using w1 m1 br(3,4) "1.prems"(1-3) by (auto split: if_splits)
      from lt it Continue "1.prems"(4)
      have run: "retryLoop e me ep pl (attempt + 1) w1 m1 s1 = (r, s')"
        by (simp add: retryLoop_Continue)
      from "1.IH" [OF lt it [symmetric] Continue inv run]
      obtain evs2 where ih: "vtexCalls s1 \<le> vtexCalls s'"
        "vtexCalls s' \<le> vtexCalls s1 + (maxRetries - (attempt + 1))"
        "trace s' = trace s1 @ evs2" "sleeps evs2 = backoff w1 m1 (replies e s1 s')"
        by blast
      from ic(8) obtain evs1 where e1: "trace s1 = trace s @ evs1"
        "sleeps evs1 = (if transient ?r then [w] else [])" by blast
      have rs: "replies e s s' = ?r # replies e s1 s'"
        using ic(1) ih(1) by (rule replies_Cons)
      have "sleeps (evs1 @ evs2) = backoff w m (replies e s s')"
        using e1(2) ih(4) w1 m1 ic(4)
        by (auto simp: rs sleeps_append rateLimited_transient transient_not_auth)
      moreover have "trace s' = trace s @ (evs1 @ evs2)" using e1(1) ih(3) by simp
      ultimately show ?thesis using ih(1,2) ic(1) lt by auto
    qed
  qed
qed

subsection \<open>Runs in which a token is always at hand\<close>

lemma fetchToken_up:
  assumes "tokenServiceUp e s"
  shows "\<exists>tok s1. fetchToken e s = (Inr tok, s1)"
proof -
  from assms have nr: "newRequest e ''POST'' (oktaURL s) = None"
    and "\<exists>body r. oktaDo e (oktaCalls s) = OktaResponse 200 body (Inr r)"
    by (auto simp: tokenServiceUp_def)
  then obtain body r where "oktaDo e (oktaCalls s) = OktaResponse 200 body (Inr r)" by blast
  with nr show ?thesis by (simp add: fetchToken_def Let_def)
qed

lemma tokenServiceUp_cong:
  "oktaURL s' = oktaURL s \<Longrightarrow> tokenServiceUp e s' = tokenServiceUp e s"
  by (simp add: tokenServiceUp_def)

lemma cachedForever_cong:
  "token s' = token s \<Longrightarrow> tokenExpiry s' = tokenExpiry s \<Longrightarrow>
   cachedForever e s' = cachedForever e s"
  by (simp add: cachedForever_def)

lemma getToken_up:
  assumes "tokenServiceUp e s"
  shows "\<exists>tok s1. getToken e s = (Inr tok, s1)"
proof (cases rule: getToken_cases [of e s])
  case (fast1 s1)
  then show ?thesis by blast
next
  case (fast2 s1 s2)
  then show ?thesis by blast
next
  case (fetch s1 s2)
  from cachedValid_frame(7) [OF fetch(1)] cachedValid_frame(7) [OF fetch(2)] assms
  have "tokenServiceUp e s2" by (simp add: tokenServiceUp_def)
  from fetchToken_up [OF this] fetch(3) show ?thesis by simp
qed

lemma getToken_available:
  assumes "tokenAvailable e s"
  shows "\<exists>tok s1. getToken e s = (Inr tok, s1) \<and> tokenAvailable e s1"
proof (cases "cachedForever e s")
  case True
  then have "getToken e s = (Inr (token s), s\<lparr>timeReads := Suc (timeReads s)\<rparr>)"
    by (intro getToken_fast) (simp_all add: cachedForever_def)
  moreover from True have "tokenAvailable e (s\<lparr>timeReads := Suc (timeReads s)\<rparr>)"
    by (simp add: tokenAvailable_def cachedForever_def)
  ultimately show ?thesis by blast
next
  case False
  with assms have up: "tokenServiceUp e s" by (simp add: tokenAvailable_def)
  from getToken_up [OF up] obtain tok s1 where g: "getToken e s = (Inr tok, s1)" by blast
  from getToken_frame(3) [OF g] up have "tokenServiceUp e s1" by (simp add: tokenServiceUp_def)
  with g show ?thesis by (auto simp: tokenAvailable_def)
qed

lemma tokenAvailable_cong:
  "token s' = token s \<Longrightarrow> tokenExpiry s' = tokenExpiry s \<Longrightarrow> oktaURL s' = oktaURL s \<Longrightarrow>
   tokenAvailable e s' = tokenAvailable e s"
  by (simp add: tokenAvailable_def cachedForever_def tokenServiceUp_def)

lemma iteration_transient:
  assumes av: "tokenAvailable e s"
    and ma: "jsonMarshal e pl = Inr body"
    and nr: "newRequest e me (vtexBaseURL s @ ep) = None"
    and tr: "transient (vtexDo e (vtexCalls s))"
  shows "\<exists>w' m' s'. iteration e me ep pl w m s = (Continue w' m', s')
     \<and> tokenAvailable e s' \<and> vtexBaseURL s' = vtexBaseURL s \<and> vtexCalls s' = Suc (vtexCalls s)"
proof -
  from getToken_available [OF av] obtain tok s1 where g: "getToken e s = (Inr tok, s1)"
    and av1: "tokenAvailable e s1" by blast
  define s2 where "s2 = s1\<lparr>vtexCalls := Suc (vtexCalls s),
                 trace := trace s1 @ [Request me (vtexBaseURL s @ ep) tok body]\<rparr>"
  have av2: "tokenAvailable e (sleep w s2)"
    using av1 by (simp add: s2_def sleep_def tokenAvailable_def cachedForever_def tokenServiceUp_def)
  have fr: "vtexBaseURL (sleep w s2) = vtexBaseURL s" "vtexCalls (sleep w s2) = Suc (vtexCalls s)"
    using getToken_frame(2) [OF g] by (simp_all add: s2_def sleep_def)
  note eq = iteration_sent [OF g ma nr, of w m, folded s2_def]
  show ?thesis
  proof (cases "vtexDo e (vtexCalls s)")
    case (TransportError err)
    with eq av2 fr show ?thesis by (simp add: Let_def)
  next
    case (Response status b)
    with tr have "status = 404 \<or> status = 429 \<or> 500 \<le> status" by simp
    with eq av2 fr Response show ?thesis by (auto simp: Let_def)
  qed
qed

lemma retryLoop_exhaust:
  assumes "tokenAvailable e s"
    and "jsonMarshal e pl = Inr body"
    and "newRequest e me (vtexBaseURL s @ ep) = None"
    and "attempt + k = maxRetries"
    and "\<forall>i<k. transient (vtexDo e (vtexCalls s + i))"
  shows "\<exists>s'. retryLoop e me ep pl attempt w m s = (Some (ErrMaxRetries maxRetries), s')
     \<and> vtexCalls s' = vtexCalls s + k \<and> tokenAvailable e s' \<and> vtexBaseURL s' = vtexBaseURL s"
  using assms
proof (induction k arbitrary: attempt w m s)
  case 0
  then show ?case by (simp add: retryLoop_done)
next
  case (Suc k)
  from Suc.prems(4) have lt: "attempt < maxRetries" by simp
  from Suc.prems(5) have "transient (vtexDo e (vtexCalls s))" by (auto dest: spec [of _ 0])
  from iteration_transient [OF Suc.prems(1-3) this, of w m]
  obtain w' m' s1 where it: "iteration e me ep pl w m s = (Continue w' m', s1)"
    and s1: "tokenAvailable e s1" "vtexBaseURL s1 = vtexBaseURL s"
      "vtexCalls s1 = Suc (vtexCalls s)" by blast
  have rest: "\<forall>i<k. transient (vtexDo e (vtexCalls s1 + i))"
  proof (intro allI impI)
    fix i assume "i < k"
    then have "Suc i < Suc k" by simp
    with Suc.prems(5) have "transient (vtexDo e (vtexCalls s + Suc i))" by blast
    then show "transient (vtexDo e (vtexCalls s1 + i))" by (simp add: s1(3))
  qed
  from Suc.prems(3) s1(2) have nr1: "newRequest e me (vtexBaseURL s1 @ ep) = None" by simp
  from Suc.prems(4) have "(attempt + 1) + k = maxRetries" by simp
  from Suc.IH [OF s1(1) Suc.prems(2) nr1 this rest, of w' m']
  obtain s' where "retryLoop e me ep pl (attempt + 1) w' m' s1 = (Some (ErrMaxRetries maxRetries), s')"
    "vtexCalls s' = vtexCalls s1 + k" "tokenAvailable e s'" "vtexBaseURL s' = vtexBaseURL s1"
    by blast
  with retryLoop_Continue [OF lt it] s1 show ?case by simp
qed

subsection \<open>Evaluating concrete runs\<close>

lemmas run_defs = doRequestWithRetry_def retryLoop.simps iteration_def getToken_def
  cachedValid_def fetchToken_def refreshToken_def sleep_def demoEnv_def demoClient_def
  demoCached_def replay_def freshToken_def maxRetries_def Let_def

lemma itoa_20: "itoa 20 = ''20''"
  by (simp add: itoa_def digits.simps)

lemma itoa_400: "itoa 400 = ''400''"
  by (simp add: itoa_def digits.simps)

subsection \<open>Further facts about runs\<close>

lemma iteration_cached:
  assumes "token s \<noteq> []" "now e (timeReads s) < tokenExpiry s"
    and "jsonMarshal e pl = Inr body"
    and "newRequest e me (vtexBaseURL s @ ep) = None"
    and "vtexDo e (vtexCalls s) = Response status b"
  shows "500 \<le> status \<Longrightarrow> status \<noteq> 504 \<Longrightarrow>
      iteration e me ep pl w m s =
        (Continue (min (scaleDuration w adjustFactor) m) m,
         s\<lparr>timeReads := Suc (timeReads s), vtexCalls := Suc (vtexCalls s),
           trace := trace s @ [Request me (vtexBaseURL s @ ep) (token s) body, Sleep w]\<rparr>)"
    and "200 \<le> status \<Longrightarrow> status < 300 \<Longrightarrow>
      iteration e me ep pl w m s =
        (Return None,
         s\<lparr>timeReads := Suc (timeReads s), vtexCalls := Suc (vtexCalls s),
           trace := trace s @ [Request me (vtexBaseURL s @ ep) (token s) body]\<rparr>)"
  using assms(5)
  by (simp_all add: iteration_sent [OF getToken_fast [OF assms(1,2)] assms(3,4)] Let_def sleep_def)

lemma doRequestWithRetry_backoff:
  assumes "doRequestWithRetry e me ep pl s = (r, s')"
  shows "sleeps (newEvents s s') = backoff baseWait maxWait (replies e s s')"
    and "vtexCalls s' \<le> vtexCalls s + 20"
proof -
  have "0 < baseWait" "baseWait \<le> maxWait" "maxWait \<le> 15 * Second"
    by (simp_all add: baseWait_def maxWait_def Millisecond_def Second_def)
  from retryLoop_backoff [OF this assms [unfolded doRequestWithRetry_def]]
  obtain evs where "trace s' = trace s @ evs"
    "sleeps evs = backoff baseWait maxWait (replies e s s')"
    and "vtexCalls s' \<le> vtexCalls s + 20" by (auto simp: maxRetries_def)
  then show "sleeps (newEvents s s') = backoff baseWait maxWait (replies e s s')"
    and "vtexCalls s' \<le> vtexCalls s + 20"
    by (simp_all add: newEvents_ext)
qed

lemma backoff_bounded:
  assumes "0 < w" "w \<le> m" "m \<le> 15 * Second"
  shows "\<forall>d \<in> set (backoff w m rs). 0 < d \<and> d \<le> 15 * Second"
  using assms
proof (induction rs arbitrary: w m)
  case Nil
  then show ?case by simp
next
  case (Cons r rs)
  from Cons.prems have m: "0 < m" by simp
  have a: "0 < min (3 * w div 2) m" using Cons.prems(1) m by simp
  have b: "min (3 * w div 2) m \<le> m" by simp
  have c: "m \<le> min (11 * m div 10) (15 * Second)" using Cons.prems(3) m by simp
  have d: "min (11 * m div 10) (15 * Second) \<le> 15 * Second" by simp
  have here: "0 < w \<and> w \<le> 15 * Second" using Cons.prems by simp
  show ?case
  proof (cases "rateLimited r")
    case True
    with Cons.IH [OF a order_trans [OF b c] d] here show ?thesis by simp
  next
    case nl: False
    show ?thesis
    proof (cases "transient r")
      case True
      with nl Cons.IH [OF a b Cons.prems(3)] here show ?thesis by simp
    next
      case False
      with nl Cons.IH [OF Cons.prems] show ?thesis by simp
    qed
  qed
qed

lemma loopHead_run:
  assumes "loopHead e meth ep pl s0 a w m s"
  shows "doRequestWithRetry e meth ep pl s0 = retryLoop e meth ep pl a w m s"
  using assms
proof (induction rule: loopHead.induct)
  case start
  show ?case by (simp add: doRequestWithRetry_def)
next
  case (step attempt w m s w' m' s')
  then show ?case by (simp add: retryLoop_Continue)
qed

lemma replies_snoc:
  "vtexCalls s0 \<le> vtexCalls s \<Longrightarrow> vtexCalls s' = Suc (vtexCalls s) \<Longrightarrow>
   replies e s0 s' = replies e s0 s @ [vtexDo e (vtexCalls s)]"
  by (simp add: replies_def)

lemma loopHead_inv:
  assumes "loopHead e meth ep pl s0 a w m s"
  shows "a \<le> maxRetries \<and> 0 < w \<and> w \<le> m \<and> m \<le> 15 * Second
    \<and> vtexCalls s0 \<le> vtexCalls s
    \<and> m = ceilingAfter (length (filter rateLimited (replies e s0 s)))"
  using assms
proof (induction rule: loopHead.induct)
  case start
  show ?case
    by (simp add: replies_def baseWait_def maxWait_def Millisecond_def Second_def)
next
  case (step attempt w m s w' m' s')
  then have inv: "0 < w" "w \<le> m" "m \<le> 15 * Second" "vtexCalls s0 \<le> vtexCalls s"
    and cm: "m = ceilingAfter (length (filter rateLimited (replies e s0 s)))"
    by simp_all
  note ic = iteration_Continue [OF step.hyps(3)]
  note br = backoff_range [OF inv(1-3)]
  let ?r = "vtexDo e (vtexCalls s)"
  have w': "w' = (if transient ?r then min (3 * w div 2) m else w)"
    using ic(6) br(1) by simp
  have m': "m' = (if rateLimited ?r then min (11 * m div 10) (15 * Second) else m)"
    using ic(7) br(2) by simp
  have rs: "replies e s0 s' = replies e s0 s @ [?r]"
    using inv(4) ic(1) by (rule replies_snoc)
  have "m' = ceilingAfter (length (filter rateLimited (replies e s0 s')))"
    using m' cm by (simp add: rs)
  moreover have "0 < w'" "w' \<le> m'" "m' \<le> 15 * Second"
    using w' m' br(3,4) inv(1-3) by (auto split: if_splits)
  moreover have "attempt + 1 \<le> maxRetries" using step.hyps(2) by simp
  moreover have "vtexCalls s0 \<le> vtexCalls s'" using inv(4) ic(1) by simp
  ultimately show ?case by simp
qed

lemma iteration_sleeps:
  assumes "iteration e meth ep pl w m s = (fl, s')"
  shows "set (sleeps (newEvents s s')) \<subseteq> {w}"
proof (cases fl)
  case (Return r)
  from iteration_Return(4) [OF assms [unfolded Return]] show ?thesis
    by (auto simp: newEvents_ext)
next
  case (Continue w' m')
  from iteration_Continue(8) [OF assms [unfolded Continue]] show ?thesis
    by (auto simp: newEvents_ext split: if_splits)
qed

lemma doRequestWithRetry_exhaust:
  assumes "tokenAvailable e s"
    and "jsonMarshal e payload = Inr body"
    and "newRequest e meth (vtexBaseURL s @ endpoint) = None"
    and "\<forall>i<20. transient (vtexDo e (vtexCalls s + i))"
  shows "\<exists>s'. doRequestWithRetry e meth endpoint payload s = (Some (ErrMaxRetries 20), s')
     \<and> vtexCalls s' = vtexCalls s + 20
     \<and> sleeps (newEvents s s') = backoff baseWait maxWait (replies e s s')
     \<and> tokenAvailable e s' \<and> vtexBaseURL s' = vtexBaseURL s"
proof -
  have k: "0 + 20 = maxRetries" by (simp add: maxRetries_def)
  from retryLoop_exhaust [OF assms(1-3) k assms(4), of baseWait maxWait]
  obtain s' where run: "retryLoop e meth endpoint payload 0 baseWait maxWait s
      = (Some (ErrMaxRetries maxRetries), s')"
    and s': "vtexCalls s' = vtexCalls s + 20" "tokenAvailable e s'"
      "vtexBaseURL s' = vtexBaseURL s"
    by blast
  have "0 < baseWait" "baseWait \<le> maxWait" "maxWait \<le> 15 * Second"
    by (simp_all add: baseWait_def maxWait_def Millisecond_def Second_def)
  from retryLoop_backoff [OF this run]
  obtain evs where "trace s' = trace s @ evs"
    "sleeps evs = backoff baseWait maxWait (replies e s s')" by blast
  then have "sleeps (newEvents s s') = backoff baseWait maxWait (replies e s s')"
    by (simp add: newEvents_ext)
  with run s' show ?thesis by (auto simp: doRequestWithRetry_def maxRetries_def)
qed

subsection \<open>The lifetime of a fetched token\<close>

lemma lifetime_in_range:
  fixes x :: "64 word"
  assumes "- (2 ^ 63) \<le> (sint x - 300) * 1000000000" "(sint x - 300) * 1000000000 < 2 ^ 63"
  shows "sint ((x - 300) * 1000000000) = (sint x - 300) * 1000000000"
proof -
  have "(x - 300) * 1000000000 = word_of_int ((sint x - 300) * 1000000000)"
    by simp
  then have "sint ((x - 300) * 1000000000)
      = signed_take_bit 63 ((sint x - 300) * 1000000000)"
    by (simp only: sint_sbintrunc') simp
  also have "\<dots> = (sint x - 300) * 1000000000"
    using assms by (intro signed_take_bit_int_eq_self) simp_all
  finally show ?thesis .
qed

lemma getToken_fetches:
  assumes invalid: "token s = [] \<or> tokenExpiry s \<le> now e (timeReads s)"
    and mono: "\<forall>n. now e n \<le> now e (Suc n)"
  shows "getToken e s =
    fetchToken e (s\<lparr>timeReads := (if token s = [] then timeReads s else timeReads s + 2)\<rparr>)"
proof (cases "token s = []")
  case True
  then show ?thesis by (simp add: getToken_def cachedValid_def)
next
  case False
  with invalid have 1: "tokenExpiry s \<le> now e (timeReads s)" by simp
  also have "now e (timeReads s) \<le> now e (Suc (timeReads s))" using mono by blast
  finally have 2: "tokenExpiry s \<le> now e (Suc (timeReads s))" .
  from False 1 2 show ?thesis by (simp add: getToken_def cachedValid_def)
qed

lemma fetchToken_success:
  assumes "newRequest e ''POST'' (oktaURL s) = None"
    and "oktaDo e (oktaCalls s) = OktaResponse 200 body (Inr resp)"
  shows "fetchToken e s =
    (Inr (AccessToken resp),
     s\<lparr>token := AccessToken resp,
       tokenExpiry := now e (timeReads s) + sint ((ExpiresIn resp - 300) * 1000000000),
       timeReads := Suc (timeReads s), oktaCalls := Suc (oktaCalls s),
       trace := trace s @ [TokenFetch]\<rparr>)"
  using assms by (simp add: fetchToken_def Let_def)

lemma fetchToken_calls:
  assumes "newRequest e ''POST'' (oktaURL s) = None"
  shows "oktaCalls (snd (fetchToken e s)) = Suc (oktaCalls s)"
  using assms
  by (simp add: fetchToken_def Let_def split: okta_reply.splits sum.splits)

lemma getToken_fast_iff:
  assumes mono: "\<forall>n. now e n \<le> now e (Suc n)"
    and nr: "newRequest e ''POST'' (oktaURL s) = None"
  shows "(fst (getToken e s) = Inr (token s) \<and> oktaCalls (snd (getToken e s)) = oktaCalls s)
    \<longleftrightarrow> (token s \<noteq> [] \<and> now e (timeReads s) < tokenExpiry s)"
proof (cases "token s \<noteq> [] \<and> now e (timeReads s) < tokenExpiry s")
  case True
  then have "getToken e s = (Inr (token s), s\<lparr>timeReads := Suc (timeReads s)\<rparr>)"
    by (intro getToken_fast) simp_all
  with True show ?thesis by simp
next
  case False
  then have "token s = [] \<or> tokenExpiry s \<le> now e (timeReads s)" by auto
  from getToken_fetches [OF this mono]
  have "oktaCalls (snd (getToken e s)) = Suc (oktaCalls s)"
    using nr by (simp add: fetchToken_calls)
  with False show ?thesis by simp
qed

subsection \<open>Creating an assignment\<close>

lemma Create_named:
  assumes "\<not> HasError (Append (diagnostics resp) planDiags)"
  shows "Create e (planDiags, data) resp s =
    (case CreateUserRole e
            \<lparr>Email = ValueString (attr_email data),
             Name = (if ValueString (attr_name data) = []
                    then takeWhile (\<lambda>x. x \<noteq> CHR ''@'') (ValueString (attr_email data))
                    else ValueString (attr_name data)),
             Account = ValueString (attr_account data),
             RoleName = ValueString (attr_role_name data)\<rparr> s of
       (Some err, s') \<Rightarrow>
         (Inr (AddError ''Error Creating VTEX User Role''
                 (''Could not create user role, unexpected error: '' @ errorString err)
                 (resp\<lparr>diagnostics := Append (diagnostics resp) planDiags\<rparr>)),
          s')
     | (None, s') \<Rightarrow>
         (Inr (StateSet
                 ((if ValueString (attr_name data) = []
                   then data\<lparr>attr_name := Known (takeWhile (\<lambda>x. x \<noteq> CHR ''@'')
                                                      (ValueString (attr_email data)))\<rparr>
                   else data)
                  \<lparr>attr_id := Known (ValueString (attr_email data) @ '':''
                           @ ValueString (attr_account data) @ '':''
                           @ ValueString (attr_role_name data))\<rparr>)
                 (resp\<lparr>diagnostics := Append (diagnostics resp) planDiags\<rparr>)),
          s'))"
proof -
  obtain ps where ps: "Split (ValueString (attr_email data)) CHR ''@'' =
      takeWhile (\<lambda>x. x \<noteq> CHR ''@'') (ValueString (attr_email data)) # ps"
    using Split_head by blast
  show ?thesis
    using assms(1)
    by (simp add: Create_def Let_def ps split: prod.splits option.splits)
qed

lemma Create_success:
  assumes run: "Create e (planDiags, data) resp s = (Inr created, s')"
    and ok: "\<not> HasError (diagnostics created)"
  shows "state created ''id'' =
      Some (Known (ValueString (attr_email data) @ '':'' @ ValueString (attr_account data)
                     @ '':'' @ ValueString (attr_role_name data)))"
    and "state created ''email'' = Some (attr_email data)"
    and "state created ''account'' = Some (attr_account data)"
    and "state created ''role_name'' = Some (attr_role_name data)"
    and "ValueString (attr_name data) = [] \<Longrightarrow>
         state created ''name'' =
           Some (Known (takeWhile (\<lambda>x. x \<noteq> CHR ''@'') (ValueString (attr_email data))))"
    and "ValueString (attr_name data) \<noteq> [] \<Longrightarrow> state created ''name'' = Some (attr_name data)"
proof -
  have noerr: "\<not> HasError (Append (diagnostics resp) planDiags)"
  proof
    assume "HasError (Append (diagnostics resp) planDiags)"
    with run have "created = resp\<lparr>diagnostics := Append (diagnostics resp) planDiags\<rparr>"
      by (simp add: Create_def Let_def)
    with ok \<open>HasError (Append (diagnostics resp) planDiags)\<close> show False by simp
  qed
  note eq = Create_named [OF noerr, of e data s]
  obtain r s1 where cu: "CreateUserRole e
            \<lparr>Email = ValueString (attr_email data),
             Name = (if ValueString (attr_name data) = []
                    then takeWhile (\<lambda>x. x \<noteq> CHR ''@'') (ValueString (attr_email data))
                    else ValueString (attr_name data)),
             Account = ValueString (attr_account data),
             RoleName = ValueString (attr_role_name data)\<rparr> s = (r, s1)"
    by (cases "CreateUserRole e
            \<lparr>Email = ValueString (attr_email data),
             Name = (if ValueString (attr_name data) = []
                    then takeWhile (\<lambda>x. x \<noteq> CHR ''@'') (ValueString (attr_email data))
                    else ValueString (attr_name data)),
             Account = ValueString (attr_account data),
             RoleName = ValueString (attr_role_name data)\<rparr> s")
  have "r = None"
  proof (cases r)
    case (Some err)
    with run eq cu have "HasError (diagnostics created)"
      using AddError_props(3) by auto
    with ok show ?thesis by simp
  qed simp
  with run eq cu have c: "created = StateSet
                 ((if ValueString (attr_name data) = []
                   then data\<lparr>attr_name := Known (takeWhile (\<lambda>x. x \<noteq> CHR ''@'')
                                                      (ValueString (attr_email data)))\<rparr>
                   else data)
                  \<lparr>attr_id := Known (ValueString (attr_email data) @ '':''
                           @ ValueString (attr_account data) @ '':''
                           @ ValueString (attr_role_name data))\<rparr>)
                 (resp\<lparr>diagnostics := Append (diagnostics resp) planDiags\<rparr>)"
    by simp
  show "state created ''id'' =
      Some (Known (ValueString (attr_email data) @ '':'' @ ValueString (attr_account data)
                     @ '':'' @ ValueString (attr_role_name data)))"
    and "state created ''email'' = Some (attr_email data)"
    and "state created ''account'' = Some (attr_account data)"
    and "state created ''role_name'' = Some (attr_role_name data)"
    and "ValueString (attr_name data) = [] \<Longrightarrow>
         state created ''name'' =
           Some (Known (takeWhile (\<lambda>x. x \<noteq> CHR ''@'') (ValueString (attr_email data))))"
    and "ValueString (attr_name data) \<noteq> [] \<Longrightarrow> state created ''name'' = Some (attr_name data)"
    by (simp_all add: c StateSet_def)
qed

lemma demo_create:
  "Create (demoEnv (\<lambda>n. 0) (\<lambda>n. freshToken) (\<lambda>n. Response 200 []))
     ([], demoPlan email) emptyResponse demoCached =
   (Inr \<lparr>diagnostics = [],
         state = [''id'' \<mapsto> Known (email @ '':vendor:Owner''), ''email'' \<mapsto> Known email,
                  ''name'' \<mapsto> Known (takeWhile (\<lambda>x. x \<noteq> CHR ''@'') email),
                  ''account'' \<mapsto> Known ''vendor'', ''role_name'' \<mapsto> Known ''Owner'']\<rparr>,
    demoCached\<lparr>timeReads := 1, vtexCalls := 1,
      trace := [Request ''POST'' ''https://vendor.myvtex.com/_v/create-user-role''
                  ''cached'' ''{}'']\<rparr>)"
proof -
  have ne: "\<not> HasError (Append (diagnostics emptyResponse) [])"
    by (simp add: HasError_def Append_def emptyResponse_def)
  show ?thesis
    using Create_named [OF ne, of "demoEnv (\<lambda>n. 0) (\<lambda>n. freshToken) (\<lambda>n. Response 200 [])"
        "demoPlan email" demoCached]
    by (simp add: CreateUserRole_def run_defs StateSet_def Append_def
        emptyResponse_def demoPlan_def Second_def)
qed

section \<open>The claims\<close>

subsection \<open>C1: a token error ends the call\<close>

text \<open>
  Two runs in which the token endpoint fails once and would answer the next call.
  In the first the client has no token: \<^verbatim>\<open>doRequestWithRetry\<close> returns the error
  of \<^verbatim>\<open>getToken\<close> after one call of the token endpoint and no request to VTEX.
  In the second VTEX answers 401 to a cached token: the forced refresh fails and its
  error is returned, after one request. Neither run reaches a second iteration.
\<close>

theorem token_error_not_retried:
  "doRequestWithRetry
     (demoEnv (\<lambda>n. int n * Second) (replay [OktaTransportError ''down''] freshToken)
        (\<lambda>n. Response 200 []))
     ''POST'' ''/_v/create-user-role'' demoPayload demoClient =
   (Some (ErrGettingToken (ErrRequestingToken ''down'')),
    demoClient\<lparr>oktaCalls := 1, trace := [TokenFetch]\<rparr>)
   \<and> doRequestWithRetry
     (demoEnv (\<lambda>n. int n * Second) (replay [OktaTransportError ''down''] freshToken)
        (replay [Response 401 []] (Response 200 [])))
     ''POST'' ''/_v/create-user-role'' demoPayload demoCached =
   (Some (ErrRefreshingToken (ErrRequestingToken ''down'')),
    demoCached\<lparr>token := [], tokenExpiry := zeroTime, timeReads := 1, oktaCalls := 1,
      vtexCalls := 1,
      trace := [Request ''POST'' ''https://vendor.myvtex.com/_v/create-user-role'' ''cached'' ''{}'',
                ForcedRefresh, TokenFetch]\<rparr>)"
  by (simp add: run_defs Second_def)

text \<open>
  Claim C1, as the code has it: when \<^verbatim>\<open>getToken\<close> fails at the top of an iteration,
  or when the refresh forced by a 401 or a 403 fails, the loop returns at once. The
  caller receives the token error wrapped as ``error getting token'' or ``error
  refreshing token''; the failing call made at most one call of the token endpoint,
  and nothing is attempted after it.
\<close>

theorem token_error_returned:
  assumes "attempt < maxRetries"
  shows "(getToken e s = (Inl err, s1) \<longrightarrow>
            retryLoop e meth endpoint payload attempt w m s = (Some (ErrGettingToken err), s1)
            \<and> errorString (ErrGettingToken err) = ''error getting token: '' @ tokenErrorString err
            \<and> vtexCalls s1 = vtexCalls s \<and> oktaCalls s1 \<le> Suc (oktaCalls s))
       \<and> (getToken e s = (Inr tok, s1) \<and> jsonMarshal e payload = Inr body
            \<and> newRequest e meth (vtexBaseURL s @ endpoint) = None
            \<and> authRejected (vtexDo e (vtexCalls s))
            \<and> refreshToken e (s1\<lparr>vtexCalls := Suc (vtexCalls s),
                   trace := trace s1 @ [Request meth (vtexBaseURL s @ endpoint) tok body]\<rparr>)
                = (Inl err, s3) \<longrightarrow>
            retryLoop e meth endpoint payload attempt w m s = (Some (ErrRefreshingToken err), s3)
            \<and> errorString (ErrRefreshingToken err)
                = ''error refreshing token: '' @ tokenErrorString err
            \<and> vtexCalls s3 = Suc (vtexCalls s) \<and> oktaCalls s3 \<le> Suc (oktaCalls s1))"
proof (intro conjI impI)
  assume g: "getToken e s = (Inl err, s1)"
  then have "iteration e meth endpoint payload w m s = (Return (Some (ErrGettingToken err)), s1)"
    by (simp add: iteration_def)
  with assms show "retryLoop e meth endpoint payload attempt w m s = (Some (ErrGettingToken err), s1)"
    by (rule retryLoop_Return)
  show "errorString (ErrGettingToken err) = ''error getting token: '' @ tokenErrorString err"
    by simp
  from getToken_frame [OF g] show "vtexCalls s1 = vtexCalls s" "oktaCalls s1 \<le> Suc (oktaCalls s)"
    by simp_all
next
  let ?s2 = "s1\<lparr>vtexCalls := Suc (vtexCalls s),
                   trace := trace s1 @ [Request meth (vtexBaseURL s @ endpoint) tok body]\<rparr>"
  assume a: "getToken e s = (Inr tok, s1) \<and> jsonMarshal e payload = Inr body
            \<and> newRequest e meth (vtexBaseURL s @ endpoint) = None
            \<and> authRejected (vtexDo e (vtexCalls s))
            \<and> refreshToken e ?s2 = (Inl err, s3)"
  then obtain status b where r: "vtexDo e (vtexCalls s) = Response status b"
    "status = 401 \<or> status = 403"
    by (cases "vtexDo e (vtexCalls s)") auto
  from a have "iteration e meth endpoint payload w m s = (Return (Some (ErrRefreshingToken err)), s3)"
    using r by (auto simp: iteration_sent Let_def)
  with assms show "retryLoop e meth endpoint payload attempt w m s = (Some (ErrRefreshingToken err), s3)"
    by (rule retryLoop_Return)
  show "errorString (ErrRefreshingToken err) = ''error refreshing token: '' @ tokenErrorString err"
    by simp
  from a have rf: "refreshToken e ?s2 = (Inl err, s3)" by simp
  from refreshToken_frame [OF rf] show "vtexCalls s3 = Suc (vtexCalls s)"
    "oktaCalls s3 \<le> Suc (oktaCalls s1)"
    by simp_all
qed

theorem token_error_returned_witness:
  "(0::nat) < maxRetries
   \<and> getToken (demoEnv (\<lambda>n. int n * Second) (replay [OktaTransportError ''down''] freshToken)
                 (\<lambda>n. Response 200 []))
        demoClient =
       (Inl (ErrRequestingToken ''down''), demoClient\<lparr>oktaCalls := 1, trace := [TokenFetch]\<rparr>)
   \<and> retryLoop (demoEnv (\<lambda>n. int n * Second) (replay [OktaTransportError ''down''] freshToken)
                 (\<lambda>n. Response 200 []))
        ''POST'' ''/_v/create-user-role'' demoPayload 0 baseWait maxWait demoClient =
       (Some (ErrGettingToken (ErrRequestingToken ''down'')),
        demoClient\<lparr>oktaCalls := 1, trace := [TokenFetch]\<rparr>)
   \<and> errorString (ErrGettingToken (ErrRequestingToken ''down''))
       = ''error getting token: error requesting token: down''
   \<and> getToken (demoEnv (\<lambda>n. int n * Second) (replay [OktaTransportError ''down''] freshToken)
                 (replay [Response 401 []] (Response 200 [])))
        demoCached = (Inr ''cached'', demoCached\<lparr>timeReads := 1\<rparr>)
   \<and> authRejected (vtexDo (demoEnv (\<lambda>n. int n * Second)
                              (replay [OktaTransportError ''down''] freshToken)
                              (replay [Response 401 []] (Response 200 [])))
                     (vtexCalls demoCached))
   \<and> retryLoop (demoEnv (\<lambda>n. int n * Second) (replay [OktaTransportError ''down''] freshToken)
                 (replay [Response 401 []] (Response 200 [])))
        ''POST'' ''/_v/create-user-role'' demoPayload 0 baseWait maxWait demoCached =
       (Some (ErrRefreshingToken (ErrRequestingToken ''down'')),
        demoCached\<lparr>token := [], tokenExpiry := zeroTime, timeReads := 1, oktaCalls := 1,
          vtexCalls := 1,
          trace := [Request ''POST'' ''https://vendor.myvtex.com/_v/create-user-role''
                      ''cached'' ''{}'',
                    ForcedRefresh, TokenFetch]\<rparr>)"
proof -
  let ?e1 = "demoEnv (\<lambda>n. int n * Second) (replay [OktaTransportError ''down''] freshToken)
                 (\<lambda>n. Response 200 [])"
  let ?e2 = "demoEnv (\<lambda>n. int n * Second) (replay [OktaTransportError ''down''] freshToken)
                 (replay [Response 401 []] (Response 200 []))"
  let ?s3 = "demoCached\<lparr>token := [], tokenExpiry := zeroTime, timeReads := 1, oktaCalls := 1,
          vtexCalls := 1,
          trace := [Request ''POST'' ''https://vendor.myvtex.com/_v/create-user-role''
                      ''cached'' ''{}'',
                    ForcedRefresh, TokenFetch]\<rparr>"
  have a: "(0::nat) < maxRetries" by (simp add: maxRetries_def)
  have g1: "getToken ?e1 demoClient =
       (Inl (ErrRequestingToken ''down''), demoClient\<lparr>oktaCalls := 1, trace := [TokenFetch]\<rparr>)"
    by (simp add: getToken_def cachedValid_def fetchToken_def demoEnv_def demoClient_def
        replay_def Let_def)
  have g2: "getToken ?e2 demoCached = (Inr ''cached'', demoCached\<lparr>timeReads := 1\<rparr>)"
    by (simp add: getToken_def cachedValid_def demoEnv_def demoCached_def demoClient_def
        Second_def)
  have au: "authRejected (vtexDo ?e2 (vtexCalls demoCached))"
    by (simp add: demoEnv_def demoCached_def demoClient_def replay_def)
  have rf: "refreshToken ?e2
      ((demoCached\<lparr>timeReads := 1\<rparr>)\<lparr>vtexCalls := Suc (vtexCalls demoCached),
         trace := trace (demoCached\<lparr>timeReads := 1\<rparr>)
           @ [Request ''POST'' (vtexBaseURL demoCached @ ''/_v/create-user-role'')
                ''cached'' ''{}'']\<rparr>)
      = (Inl (ErrRequestingToken ''down''), ?s3)"
    by (simp add: refreshToken_def getToken_def cachedValid_def fetchToken_def demoEnv_def
        demoCached_def demoClient_def replay_def Let_def)
  from token_error_returned [OF a, where e = ?e1 and s = demoClient
      and err = "ErrRequestingToken ''down''"
      and ?s1.0 = "demoClient\<lparr>oktaCalls := 1, trace := [TokenFetch]\<rparr>"
      and meth = "''POST''" and endpoint = "''/_v/create-user-role''" and payload = demoPayload
      and w = baseWait and m = maxWait] g1
  have c1: "retryLoop ?e1 ''POST'' ''/_v/create-user-role'' demoPayload 0 baseWait maxWait demoClient =
       (Some (ErrGettingToken (ErrRequestingToken ''down'')),
        demoClient\<lparr>oktaCalls := 1, trace := [TokenFetch]\<rparr>)"
    and c2: "errorString (ErrGettingToken (ErrRequestingToken ''down''))
       = ''error getting token: error requesting token: down''"
    by simp_all
  from token_error_returned [OF a, where e = ?e2 and s = demoCached
      and err = "ErrRequestingToken ''down''" and tok = "''cached''"
      and ?s1.0 = "demoCached\<lparr>timeReads := 1\<rparr>" and ?s3.0 = ?s3 and body = "''{}''"
      and meth = "''POST''" and endpoint = "''/_v/create-user-role''" and payload = demoPayload
      and w = baseWait and m = maxWait] g2 au rf
  have c3: "retryLoop ?e2 ''POST'' ''/_v/create-user-role'' demoPayload 0 baseWait maxWait demoCached =
       (Some (ErrRefreshingToken (ErrRequestingToken ''down'')), ?s3)"
    by (simp add: demoEnv_def)
  from a g1 c1 c2 g2 au c3 show ?thesis by (intro conjI)
qed

subsection \<open>C2: which identifiers the import accepts\<close>

text \<open>
  The identifier \<^verbatim>\<open>a:b:c:d\<close> has four parts when split on every colon, and the
  import accepts it: \<^verbatim>\<open>SplitN\<close> with limit 3 leaves the rest of the string, colons
  included, in the third part.
\<close>

theorem ImportState_accepts_extra_colons:
  "length (Split ''a:b:c:d'' CHR '':'') = 4
   \<and> ImportState ''a:b:c:d'' \<lparr>diagnostics = [], state = Map.empty\<rparr> =
       Inr \<lparr>diagnostics = [],
            state = [''id'' \<mapsto> Known ''a:b:c:d'', ''email'' \<mapsto> Known ''a'',
                     ''account'' \<mapsto> Known ''b'', ''role_name'' \<mapsto> Known ''c:d'',
                     ''name'' \<mapsto> Known ''a'']\<rparr>"
  by (simp add: Split_eq ImportState_ok)

text \<open>
  Claim C2, as the code has it: \<^verbatim>\<open>ImportState\<close> succeeds exactly when the
  identifier holds at least two colons. It then sets \<open>id\<close> to the whole string,
  \<open>email\<close> to the text before the first colon, \<open>account\<close> to the text between
  the first and the second colon, \<open>role_name\<close> to everything after the second colon
  and \<open>name\<close> to the part of the email before its first \<open>@\<close>. With fewer than two
  colons it reports the error ``Invalid Import ID'' and leaves the state as it was.
\<close>

theorem ImportState_two_colons:
  "(2 \<le> count_list reqID CHR '':'' \<longrightarrow>
      ImportState reqID resp =
        Inr (resp\<lparr>state := (state resp)
          (''id'' \<mapsto> Known reqID,
           ''email'' \<mapsto> Known (takeWhile (\<lambda>x. x \<noteq> CHR '':'') reqID),
           ''account'' \<mapsto> Known (takeWhile (\<lambda>x. x \<noteq> CHR '':'')
                          (tl (dropWhile (\<lambda>x. x \<noteq> CHR '':'') reqID))),
           ''role_name'' \<mapsto> Known (tl (dropWhile (\<lambda>x. x \<noteq> CHR '':'')
                          (tl (dropWhile (\<lambda>x. x \<noteq> CHR '':'') reqID)))),
           ''name'' \<mapsto> Known (takeWhile (\<lambda>x. x \<noteq> CHR ''@'')
                          (takeWhile (\<lambda>x. x \<noteq> CHR '':'') reqID)))\<rparr>))
   \<and> (count_list reqID CHR '':'' < 2 \<longrightarrow>
        (\<exists>r. ImportState reqID resp = Inr r \<and> state r = state resp
           \<and> HasError (diagnostics r)
           \<and> (SeverityError, ''Invalid Import ID'',
                ''Expected import ID format: email:account:role_name, got: '' @ reqID)
               \<in> set (diagnostics r)))"
  by (simp add: ImportState_ok ImportState_bad AddError_props)

theorem ImportState_two_colons_witness:
  "2 \<le> count_list ''a@b.com:vendor:Owner'' CHR '':''
   \<and> ImportState ''a@b.com:vendor:Owner'' \<lparr>diagnostics = [], state = Map.empty\<rparr> =
       Inr \<lparr>diagnostics = [],
            state = [''id'' \<mapsto> Known ''a@b.com:vendor:Owner'', ''email'' \<mapsto> Known ''a@b.com'',
                     ''account'' \<mapsto> Known ''vendor'', ''role_name'' \<mapsto> Known ''Owner'',
                     ''name'' \<mapsto> Known ''a'']\<rparr>
   \<and> count_list ''a@b.com:vendor'' CHR '':'' < 2
   \<and> (\<exists>r. ImportState ''a@b.com:vendor'' \<lparr>diagnostics = [], state = Map.empty\<rparr> = Inr r
          \<and> state r = Map.empty \<and> HasError (diagnostics r)
          \<and> (SeverityError, ''Invalid Import ID'',
               ''Expected import ID format: email:account:role_name, got: a@b.com:vendor'')
              \<in> set (diagnostics r))"
proof -
  have h1: "2 \<le> count_list ''a@b.com:vendor:Owner'' CHR '':''" by simp
  have h2: "count_list ''a@b.com:vendor'' CHR '':'' < 2" by simp
  from ImportState_two_colons [of "''a@b.com:vendor:Owner''" "\<lparr>diagnostics = [], state = Map.empty\<rparr>"] h1
  have c1: "ImportState ''a@b.com:vendor:Owner'' \<lparr>diagnostics = [], state = Map.empty\<rparr> =
       Inr \<lparr>diagnostics = [],
            state = [''id'' \<mapsto> Known ''a@b.com:vendor:Owner'', ''email'' \<mapsto> Known ''a@b.com'',
                     ''account'' \<mapsto> Known ''vendor'', ''role_name'' \<mapsto> Known ''Owner'',
                     ''name'' \<mapsto> Known ''a'']\<rparr>"
    by simp
  from ImportState_two_colons [of "''a@b.com:vendor''" "\<lparr>diagnostics = [], state = Map.empty\<rparr>"] h2
  have c2: "\<exists>r. ImportState ''a@b.com:vendor'' \<lparr>diagnostics = [], state = Map.empty\<rparr> = Inr r
          \<and> state r = Map.empty \<and> HasError (diagnostics r)
          \<and> (SeverityError, ''Invalid Import ID'',
               ''Expected import ID format: email:account:role_name, got: a@b.com:vendor'')
              \<in> set (diagnostics r)"
    by simp
  from h1 c1 h2 c2 show ?thesis by blast
qed

subsection \<open>C3: two transient failures, then success\<close>

text \<open>
  Claim C3. With a cached token that is valid at the three attempts, and the replies
  503, 503, 200, \<^verbatim>\<open>doRequestWithRetry\<close> returns \<^verbatim>\<open>nil\<close> after three requests,
  having slept 100 ms after the first and 150 ms after the second. In every run the
  durations slept are those of the schedule \<open>backoff\<close> on the replies received: the
  wait starts at 100 ms, and each transient failure multiplies it by 1.5 (rounded down
  to a whole nanosecond) and caps it at the ceiling, which starts at 5 s.
\<close>

theorem two_retries_then_success:
  "(token s \<noteq> [] \<and> (\<forall>i<3. now e (timeReads s + i) < tokenExpiry s)
     \<and> jsonMarshal e payload = Inr body
     \<and> newRequest e meth (vtexBaseURL s @ endpoint) = None
     \<and> vtexDo e (vtexCalls s) = Response 503 b0
     \<and> vtexDo e (vtexCalls s + 1) = Response 503 b1
     \<and> vtexDo e (vtexCalls s + 2) = Response 200 b2 \<longrightarrow>
     doRequestWithRetry e meth endpoint payload s =
       (None,
        s\<lparr>timeReads := timeReads s + 3, vtexCalls := vtexCalls s + 3,
          trace := trace s @
            [Request meth (vtexBaseURL s @ endpoint) (token s) body, Sleep (100 * Millisecond),
             Request meth (vtexBaseURL s @ endpoint) (token s) body, Sleep (150 * Millisecond),
             Request meth (vtexBaseURL s @ endpoint) (token s) body]\<rparr>))
   \<and> (doRequestWithRetry e meth endpoint payload s = (r, s') \<longrightarrow>
        sleeps (newEvents s s') = backoff (100 * Millisecond) (5 * Second) (replies e s s'))"
proof (intro conjI impI)
  assume a: "token s \<noteq> [] \<and> (\<forall>i<3. now e (timeReads s + i) < tokenExpiry s)
     \<and> jsonMarshal e payload = Inr body
     \<and> newRequest e meth (vtexBaseURL s @ endpoint) = None
     \<and> vtexDo e (vtexCalls s) = Response 503 b0
     \<and> vtexDo e (vtexCalls s + 1) = Response 503 b1
     \<and> vtexDo e (vtexCalls s + 2) = Response 200 b2"
  let ?rq = "Request meth (vtexBaseURL s @ endpoint) (token s) body"
  define s1 where "s1 = s\<lparr>timeReads := Suc (timeReads s), vtexCalls := Suc (vtexCalls s),
           trace := trace s @ [?rq, Sleep baseWait]\<rparr>"
  define s2 where "s2 = s1\<lparr>timeReads := Suc (timeReads s1), vtexCalls := Suc (vtexCalls s1),
           trace := trace s1 @ [?rq, Sleep (150 * Millisecond)]\<rparr>"
  define s3 where "s3 = s2\<lparr>timeReads := Suc (timeReads s2), vtexCalls := Suc (vtexCalls s2),
           trace := trace s2 @ [?rq]\<rparr>"
  from a have tok: "token s \<noteq> []" and ma: "jsonMarshal e payload = Inr body"
    and nr: "newRequest e meth (vtexBaseURL s @ endpoint) = None"
    and valid: "\<forall>i<3. now e (timeReads s + i) < tokenExpiry s"
    and r0: "vtexDo e (vtexCalls s) = Response 503 b0"
    and r1: "vtexDo e (vtexCalls s + 1) = Response 503 b1"
    and r2: "vtexDo e (vtexCalls s + 2) = Response 200 b2"
    by simp_all
  have t0: "now e (timeReads s) < tokenExpiry s"
    using valid [rule_format, of 0] by simp
  have t1: "now e (timeReads s + 1) < tokenExpiry s"
    using valid [rule_format, of 1] by simp
  have t2: "now e (timeReads s + 2) < tokenExpiry s"
    using valid [rule_format, of 2] by simp
  have w1: "min (scaleDuration baseWait adjustFactor) maxWait = 150 * Millisecond"
    by (simp add: scale_adjust baseWait_def maxWait_def Millisecond_def Second_def)
  have w2: "min (scaleDuration (150 * Millisecond) adjustFactor) maxWait = 225 * Millisecond"
    by (simp add: scale_adjust baseWait_def maxWait_def Millisecond_def Second_def)
  have i1: "iteration e meth endpoint payload baseWait maxWait s
      = (Continue (150 * Millisecond) maxWait, s1)"
    using iteration_cached(1) [OF tok t0 ma nr r0, of baseWait maxWait]
    by (simp add: w1 s1_def)
  have i2: "iteration e meth endpoint payload (150 * Millisecond) maxWait s1
      = (Continue (225 * Millisecond) maxWait, s2)"
    using iteration_cached(1) [of s1 e payload body meth endpoint 503 b1 "150 * Millisecond" maxWait]
      tok t1 ma nr r1
    by (simp add: w2 s1_def s2_def)
  have i3: "iteration e meth endpoint payload (225 * Millisecond) maxWait s2 = (Return None, s3)"
    using iteration_cached(2) [of s2 e payload body meth endpoint 200 b2 "225 * Millisecond" maxWait]
      tok t2 ma nr r2
    by (simp add: s1_def s2_def s3_def)
  have "doRequestWithRetry e meth endpoint payload s
      = retryLoop e meth endpoint payload (Suc 0) (150 * Millisecond) maxWait s1"
    unfolding doRequestWithRetry_def using retryLoop_Continue [OF _ i1, of 0]
    by (simp add: maxRetries_def)
  also have "\<dots> = retryLoop e meth endpoint payload (Suc (Suc 0)) (225 * Millisecond) maxWait s2"
    using retryLoop_Continue [OF _ i2, of "Suc 0"] by (simp add: maxRetries_def)
  also have "\<dots> = (None, s3)"
    using retryLoop_Return [OF _ i3, of "Suc (Suc 0)"] by (simp add: maxRetries_def)
  finally show "doRequestWithRetry e meth endpoint payload s =
       (None,
        s\<lparr>timeReads := timeReads s + 3, vtexCalls := vtexCalls s + 3,
          trace := trace s @
            [?rq, Sleep (100 * Millisecond), ?rq, Sleep (150 * Millisecond), ?rq]\<rparr>)"
    by (simp add: s1_def s2_def s3_def baseWait_def)
next
  assume "doRequestWithRetry e meth endpoint payload s = (r, s')"
  from doRequestWithRetry_backoff(1) [OF this]
  show "sleeps (newEvents s s') = backoff (100 * Millisecond) (5 * Second) (replies e s s')"
    by (simp add: baseWait_def maxWait_def)
qed

theorem two_retries_then_success_witness:
  "token demoCached \<noteq> []
   \<and> vtexDo (demoEnv (\<lambda>n. 0) (\<lambda>n. freshToken)
               (replay [Response 503 [], Response 503 []] (Response 200 [])))
        (vtexCalls demoCached + 2) = Response 200 []
   \<and> doRequestWithRetry
        (demoEnv (\<lambda>n. 0) (\<lambda>n. freshToken)
           (replay [Response 503 [], Response 503 []] (Response 200 [])))
        ''POST'' ''/_v/create-user-role'' demoPayload demoCached =
       (None,
        demoCached\<lparr>timeReads := 3, vtexCalls := 3,
          trace :=
            [Request ''POST'' ''https://vendor.myvtex.com/_v/create-user-role'' ''cached'' ''{}'',
             Sleep (100 * Millisecond),
             Request ''POST'' ''https://vendor.myvtex.com/_v/create-user-role'' ''cached'' ''{}'',
             Sleep (150 * Millisecond),
             Request ''POST'' ''https://vendor.myvtex.com/_v/create-user-role'' ''cached'' ''{}'']\<rparr>)
   \<and> sleeps (newEvents demoCached
        (demoCached\<lparr>timeReads := 3, vtexCalls := 3,
          trace :=
            [Request ''POST'' ''https://vendor.myvtex.com/_v/create-user-role'' ''cached'' ''{}'',
             Sleep (100 * Millisecond),
             Request ''POST'' ''https://vendor.myvtex.com/_v/create-user-role'' ''cached'' ''{}'',
             Sleep (150 * Millisecond),
             Request ''POST'' ''https://vendor.myvtex.com/_v/create-user-role'' ''cached'' ''{}'']\<rparr>))
     = backoff (100 * Millisecond) (5 * Second)
         (replies (demoEnv (\<lambda>n. 0) (\<lambda>n. freshToken)
                     (replay [Response 503 [], Response 503 []] (Response 200 [])))
            demoCached
            (demoCached\<lparr>timeReads := 3, vtexCalls := 3,
              trace :=
                [Request ''POST'' ''https://vendor.myvtex.com/_v/create-user-role'' ''cached'' ''{}'',
                 Sleep (100 * Millisecond),
                 Request ''POST'' ''https://vendor.myvtex.com/_v/create-user-role'' ''cached'' ''{}'',
                 Sleep (150 * Millisecond),
                 Request ''POST'' ''https://vendor.myvtex.com/_v/create-user-role'' ''cached'' ''{}'']\<rparr>))"
proof -
  let ?e = "demoEnv (\<lambda>n. 0) (\<lambda>n. freshToken)
              (replay [Response 503 [], Response 503 []] (Response 200 []))"
  let ?rq = "Request ''POST'' ''https://vendor.myvtex.com/_v/create-user-role'' ''cached'' ''{}''"
  let ?sf = "demoCached\<lparr>timeReads := 3, vtexCalls := 3,
          trace := [?rq, Sleep (100 * Millisecond), ?rq, Sleep (150 * Millisecond), ?rq]\<rparr>"
  have tok: "token demoCached \<noteq> []" by (simp add: demoCached_def demoClient_def)
  have valid: "\<forall>i<3. now ?e (timeReads demoCached + i) < tokenExpiry demoCached"
    by (simp add: demoEnv_def demoCached_def demoClient_def Second_def)
  have ma: "jsonMarshal ?e demoPayload = Inr ''{}''" by (simp add: demoEnv_def)
  have nr: "newRequest ?e ''POST'' (vtexBaseURL demoCached @ ''/_v/create-user-role'') = None"
    by (simp add: demoEnv_def)
  have r0: "vtexDo ?e (vtexCalls demoCached) = Response 503 []"
    and r1: "vtexDo ?e (vtexCalls demoCached + 1) = Response 503 []"
    and r2: "vtexDo ?e (vtexCalls demoCached + 2) = Response 200 []"
    by (simp_all add: demoEnv_def demoCached_def demoClient_def replay_def)
  note inst = two_retries_then_success [where e = ?e and s = demoCached and payload = demoPayload
      and body = "''{}''" and meth = "''POST''" and endpoint = "''/_v/create-user-role''"
      and ?b0.0 = "[]" and ?b1.0 = "[]" and ?b2.0 = "[]" and r = None and s' = ?sf]
  from inst tok valid ma nr r0 r1 r2
  have run: "doRequestWithRetry ?e ''POST'' ''/_v/create-user-role'' demoPayload demoCached
      = (None, ?sf)"
    by (simp add: demoCached_def demoClient_def)
  with inst have "sleeps (newEvents demoCached ?sf)
      = backoff (100 * Millisecond) (5 * Second) (replies ?e demoCached ?sf)"
    by blast
  with tok r2 run show ?thesis by (intro conjI)
qed

subsection \<open>C4: the wait and its ceiling\<close>

text \<open>
  Claim C4. At every head of the loop of a call, the wait is positive and at most the
  ceiling, and the ceiling is at most 15 s. The ceiling is \<open>ceilingAfter k\<close>, where
  \<open>k\<close> counts the replies 404, 429 and 504 received so far in the call: it starts at
  5 s, each such reply multiplies it by 1.1 (rounded down to a whole nanosecond) and caps
  it at 15 s, and no other outcome changes it. The only duration that an iteration
  sleeps is the current wait, so that every sleep of a call is positive and at most
  15 s.
\<close>

theorem wait_and_ceiling:
  "(loopHead e meth endpoint payload s0 attempt w m s \<longrightarrow>
      doRequestWithRetry e meth endpoint payload s0
        = retryLoop e meth endpoint payload attempt w m s
      \<and> 0 < w \<and> w \<le> m \<and> m \<le> 15 * Second
      \<and> m = ceilingAfter (length (filter rateLimited (replies e s0 s)))
      \<and> (\<forall>fl s'. iteration e meth endpoint payload w m s = (fl, s') \<longrightarrow>
            set (sleeps (newEvents s s')) \<subseteq> {w}))
   \<and> (doRequestWithRetry e meth endpoint payload s0 = (r, sf) \<longrightarrow>
        (\<forall>d \<in> set (sleeps (newEvents s0 sf)). 0 < d \<and> d \<le> 15 * Second))"
proof -
  have heads: "loopHead e meth endpoint payload s0 attempt w m s \<longrightarrow>
      doRequestWithRetry e meth endpoint payload s0
        = retryLoop e meth endpoint payload attempt w m s
      \<and> 0 < w \<and> w \<le> m \<and> m \<le> 15 * Second
      \<and> m = ceilingAfter (length (filter rateLimited (replies e s0 s)))
      \<and> (\<forall>fl s'. iteration e meth endpoint payload w m s = (fl, s') \<longrightarrow>
            set (sleeps (newEvents s s')) \<subseteq> {w})"
  proof (rule impI)
    assume h: "loopHead e meth endpoint payload s0 attempt w m s"
    have "\<forall>fl s'. iteration e meth endpoint payload w m s = (fl, s') \<longrightarrow>
            set (sleeps (newEvents s s')) \<subseteq> {w}"
      by (intro allI impI) (rule iteration_sleeps)
    with loopHead_run [OF h] loopHead_inv [OF h]
    show "doRequestWithRetry e meth endpoint payload s0
        = retryLoop e meth endpoint payload attempt w m s
      \<and> 0 < w \<and> w \<le> m \<and> m \<le> 15 * Second
      \<and> m = ceilingAfter (length (filter rateLimited (replies e s0 s)))
      \<and> (\<forall>fl s'. iteration e meth endpoint payload w m s = (fl, s') \<longrightarrow>
            set (sleeps (newEvents s s')) \<subseteq> {w})"
      by simp
  qed
  have total: "doRequestWithRetry e meth endpoint payload s0 = (r, sf) \<longrightarrow>
        (\<forall>d \<in> set (sleeps (newEvents s0 sf)). 0 < d \<and> d \<le> 15 * Second)"
  proof (rule impI)
    assume run: "doRequestWithRetry e meth endpoint payload s0 = (r, sf)"
    have b: "0 < baseWait" "baseWait \<le> maxWait" "maxWait \<le> 15 * Second"
      by (simp_all add: baseWait_def maxWait_def Millisecond_def Second_def)
    from retryLoop_backoff [OF b run [unfolded doRequestWithRetry_def]]
    obtain evs where "trace sf = trace s0 @ evs"
      "sleeps evs = backoff baseWait maxWait (replies e s0 sf)" by blast
    then have "sleeps (newEvents s0 sf) = backoff baseWait maxWait (replies e s0 sf)"
      by (simp add: newEvents_ext)
    with backoff_bounded [OF b, of "replies e s0 sf"]
    show "\<forall>d \<in> set (sleeps (newEvents s0 sf)). 0 < d \<and> d \<le> 15 * Second" by simp
  qed
  from heads total show ?thesis by (rule conjI)
qed

theorem wait_and_ceiling_witness:
  "loopHead (demoEnv (\<lambda>n. 0) (\<lambda>n. freshToken) (replay [Response 429 []] (Response 200 [])))
     ''POST'' ''/_v/create-user-role'' demoPayload demoCached
     1 (150 * Millisecond) (5500 * Millisecond)
     (demoCached\<lparr>timeReads := 1, vtexCalls := 1,
        trace := [Request ''POST'' ''https://vendor.myvtex.com/_v/create-user-role''
                    ''cached'' ''{}'',
                  Sleep (100 * Millisecond)]\<rparr>)
   \<and> doRequestWithRetry
        (demoEnv (\<lambda>n. 0) (\<lambda>n. freshToken) (replay [Response 429 []] (Response 200 [])))
        ''POST'' ''/_v/create-user-role'' demoPayload demoCached
       = retryLoop
          (demoEnv (\<lambda>n. 0) (\<lambda>n. freshToken) (replay [Response 429 []] (Response 200 [])))
          ''POST'' ''/_v/create-user-role'' demoPayload 1 (150 * Millisecond) (5500 * Millisecond)
          (demoCached\<lparr>timeReads := 1, vtexCalls := 1,
             trace := [Request ''POST'' ''https://vendor.myvtex.com/_v/create-user-role''
                         ''cached'' ''{}'',
                       Sleep (100 * Millisecond)]\<rparr>)
   \<and> 0 < 150 * Millisecond \<and> 150 * Millisecond \<le> 5500 * Millisecond
   \<and> 5500 * Millisecond \<le> 15 * Second
   \<and> 5500 * Millisecond = ceilingAfter 1
   \<and> doRequestWithRetry
        (demoEnv (\<lambda>n. 0) (\<lambda>n. freshToken) (replay [Response 429 []] (Response 200 [])))
        ''POST'' ''/_v/create-user-role'' demoPayload demoCached
       = (None,
          demoCached\<lparr>timeReads := 2, vtexCalls := 2,
            trace := [Request ''POST'' ''https://vendor.myvtex.com/_v/create-user-role''
                        ''cached'' ''{}'',
                      Sleep (100 * Millisecond),
                      Request ''POST'' ''https://vendor.myvtex.com/_v/create-user-role''
                        ''cached'' ''{}'']\<rparr>)
   \<and> list_all (\<lambda>d. 0 < d \<and> d \<le> 15 * Second)
        (sleeps (newEvents demoCached
           (demoCached\<lparr>timeReads := 2, vtexCalls := 2,
              trace := [Request ''POST'' ''https://vendor.myvtex.com/_v/create-user-role''
                          ''cached'' ''{}'',
                        Sleep (100 * Millisecond),
                        Request ''POST'' ''https://vendor.myvtex.com/_v/create-user-role''
                          ''cached'' ''{}'']\<rparr>)))"
proof -
  let ?e = "demoEnv (\<lambda>n. 0) (\<lambda>n. freshToken) (replay [Response 429 []] (Response 200 []))"
  let ?rq = "Request ''POST'' ''https://vendor.myvtex.com/_v/create-user-role'' ''cached'' ''{}''"
  let ?s1 = "demoCached\<lparr>timeReads := 1, vtexCalls := 1,
        trace := [?rq, Sleep (100 * Millisecond)]\<rparr>"
  let ?sf = "demoCached\<lparr>timeReads := 2, vtexCalls := 2,
        trace := [?rq, Sleep (100 * Millisecond), ?rq]\<rparr>"
  have sc: "scaleDuration 100000000 adjustFactor = 150000000"
    "scaleDuration 5000000000 ceilingFactor = 5500000000"
    "scaleDuration 150000000 adjustFactor = 225000000"
    by (simp_all add: scale_adjust scale_ceiling)
  have it: "iteration ?e ''POST'' ''/_v/create-user-role'' demoPayload baseWait maxWait demoCached
      = (Continue (150 * Millisecond) (5500 * Millisecond), ?s1)"
    by (simp add: run_defs sc baseWait_def maxWait_def Millisecond_def Second_def)
  have lt: "(0::nat) < maxRetries" by (simp add: maxRetries_def)
  have head: "loopHead ?e ''POST'' ''/_v/create-user-role'' demoPayload demoCached
      1 (150 * Millisecond) (5500 * Millisecond) ?s1"
    using loopHead.step [OF loopHead.start lt it] by simp
  have run: "doRequestWithRetry ?e ''POST'' ''/_v/create-user-role'' demoPayload demoCached
      = (None, ?sf)"
    by (simp add: run_defs sc baseWait_def maxWait_def Millisecond_def Second_def)
  have rl: "length (filter rateLimited (replies ?e demoCached ?s1)) = 1"
    by (simp add: replies_def demoEnv_def demoCached_def demoClient_def replay_def)
  note inst = wait_and_ceiling [where e = ?e and ?s0.0 = demoCached and payload = demoPayload
      and meth = "''POST''" and endpoint = "''/_v/create-user-role''" and attempt = 1
      and w = "150 * Millisecond" and m = "5500 * Millisecond" and s = ?s1
      and r = None and sf = ?sf]
  from inst head
  have c1: "doRequestWithRetry ?e ''POST'' ''/_v/create-user-role'' demoPayload demoCached
       = retryLoop ?e ''POST'' ''/_v/create-user-role'' demoPayload 1
           (150 * Millisecond) (5500 * Millisecond) ?s1"
    and c2: "0 < 150 * Millisecond" "150 * Millisecond \<le> 5500 * Millisecond"
      "5500 * Millisecond \<le> 15 * Second"
    and c3: "5500 * Millisecond
      = ceilingAfter (length (filter rateLimited (replies ?e demoCached ?s1)))"
    by blast+
  from inst run
  have "\<forall>d \<in> set (sleeps (newEvents demoCached ?sf)). 0 < d \<and> d \<le> 15 * Second"
    by blast
  then have c4: "list_all (\<lambda>d. 0 < d \<and> d \<le> 15 * Second) (sleeps (newEvents demoCached ?sf))"
    by (simp only: list_all_iff)
  from c3 have c3': "5500 * Millisecond = ceilingAfter 1" by (simp only: rl)
  from head c1 c2 c3' run c4 show ?thesis by (intro conjI)
qed

subsection \<open>C5: the attempt budget\<close>

text \<open>
  Claim C5. When a token is always at hand and the next twenty outcomes are transient
  (a transport failure, a 404, a 429 or any status from 500 on), \<^verbatim>\<open>doRequestWithRetry\<close>
  returns the error ``max retries (20) exceeded'' after exactly twenty requests. The
  durations slept are those of the schedule that starts from 100 ms and 5 s, whatever
  the state the call starts in; in particular a second call, made in the state that
  the first one left, has its own twenty attempts and its own schedule.
\<close>

theorem retries_exhausted:
  assumes "tokenAvailable e s"
    and "jsonMarshal e payload = Inr body"
    and "newRequest e meth (vtexBaseURL s @ endpoint) = None"
    and "\<forall>i<20. transient (vtexDo e (vtexCalls s + i))"
  shows "\<exists>s'. doRequestWithRetry e meth endpoint payload s = (Some (ErrMaxRetries 20), s')
     \<and> errorString (ErrMaxRetries 20) = ''max retries (20) exceeded''
     \<and> vtexCalls s' = vtexCalls s + 20
     \<and> sleeps (newEvents s s') = backoff baseWait maxWait (replies e s s')
     \<and> ((\<forall>i<20. transient (vtexDo e (vtexCalls s' + i))) \<longrightarrow>
          (\<exists>s''. doRequestWithRetry e meth endpoint payload s' = (Some (ErrMaxRetries 20), s'')
             \<and> vtexCalls s'' = vtexCalls s' + 20
             \<and> sleeps (newEvents s' s'') = backoff baseWait maxWait (replies e s' s'')))"
proof -
  from doRequestWithRetry_exhaust [OF assms]
  obtain s' where first: "doRequestWithRetry e meth endpoint payload s = (Some (ErrMaxRetries 20), s')"
    "vtexCalls s' = vtexCalls s + 20"
    "sleeps (newEvents s s') = backoff baseWait maxWait (replies e s s')"
    and s': "tokenAvailable e s'" "vtexBaseURL s' = vtexBaseURL s"
    by blast
  have again: "\<exists>s''. doRequestWithRetry e meth endpoint payload s' = (Some (ErrMaxRetries 20), s'')
             \<and> vtexCalls s'' = vtexCalls s' + 20
             \<and> sleeps (newEvents s' s'') = backoff baseWait maxWait (replies e s' s'')"
    if more: "\<forall>i<20. transient (vtexDo e (vtexCalls s' + i))"
  proof -
    from assms(3) s'(2) have "newRequest e meth (vtexBaseURL s' @ endpoint) = None" by simp
    from doRequestWithRetry_exhaust [OF s'(1) assms(2) this more] show ?thesis by blast
  qed
  have msg: "errorString (ErrMaxRetries 20) = ''max retries (20) exceeded''"
    by (simp add: itoa_20)
  from first msg again show ?thesis by blast
qed

theorem retries_exhausted_witness:
  "tokenAvailable (demoEnv (\<lambda>n. 0) (\<lambda>n. OktaTransportError ''down'') (\<lambda>n. Response 500 []))
     demoCached
   \<and> transient (vtexDo (demoEnv (\<lambda>n. 0) (\<lambda>n. OktaTransportError ''down'')
                          (\<lambda>n. Response 500 []))
                 (vtexCalls demoCached + 19))
   \<and> (\<exists>s'. doRequestWithRetry
          (demoEnv (\<lambda>n. 0) (\<lambda>n. OktaTransportError ''down'') (\<lambda>n. Response 500 []))
          ''POST'' ''/_v/create-user-role'' demoPayload demoCached
          = (Some (ErrMaxRetries 20), s')
        \<and> errorString (ErrMaxRetries 20) = ''max retries (20) exceeded''
        \<and> vtexCalls s' = 20
        \<and> sleeps (newEvents demoCached s') =
            [100000000, 150000000, 225000000, 337500000, 506250000, 759375000,
             1139062500, 1708593750, 2562890625, 3844335937, 5000000000, 5000000000,
             5000000000, 5000000000, 5000000000, 5000000000, 5000000000, 5000000000,
             5000000000, 5000000000]
        \<and> (\<exists>s''. doRequestWithRetry
              (demoEnv (\<lambda>n. 0) (\<lambda>n. OktaTransportError ''down'') (\<lambda>n. Response 500 []))
              ''POST'' ''/_v/create-user-role'' demoPayload s'
              = (Some (ErrMaxRetries 20), s'')
            \<and> vtexCalls s'' = 40
            \<and> sleeps (newEvents s' s'') = sleeps (newEvents demoCached s')))"
proof -
  let ?e = "demoEnv (\<lambda>n. 0) (\<lambda>n. OktaTransportError ''down'') (\<lambda>n. Response 500 [])"
  have av: "tokenAvailable ?e demoCached"
    by (simp add: tokenAvailable_def cachedForever_def demoEnv_def demoCached_def
        demoClient_def Second_def)
  have ma: "jsonMarshal ?e demoPayload = Inr ''{}''" by (simp add: demoEnv_def)
  have nr: "newRequest ?e ''POST'' (vtexBaseURL demoCached @ ''/_v/create-user-role'') = None"
    by (simp add: demoEnv_def)
  have tr: "\<forall>i<20. transient (vtexDo ?e (vtexCalls demoCached + i))"
    by (simp add: demoEnv_def)
  have t19: "transient (vtexDo ?e (vtexCalls demoCached + 19))" by (simp add: demoEnv_def)
  have rep: "replies ?e a b = replicate (vtexCalls b - vtexCalls a) (Response 500 [])" for a b
    by (simp add: replies_def demoEnv_def map_replicate_const)
  have sched: "backoff baseWait maxWait (replicate 20 (Response 500 [])) =
            [100000000, 150000000, 225000000, 337500000, 506250000, 759375000,
             1139062500, 1708593750, 2562890625, 3844335937, 5000000000, 5000000000,
             5000000000, 5000000000, 5000000000, 5000000000, 5000000000, 5000000000,
             5000000000, 5000000000]"
    by (simp add: baseWait_def maxWait_def Millisecond_def Second_def numeral_eq_Suc)
  from retries_exhausted [OF av ma nr tr]
  obtain s' where 1: "doRequestWithRetry ?e ''POST'' ''/_v/create-user-role'' demoPayload demoCached
          = (Some (ErrMaxRetries 20), s')"
    and 2: "errorString (ErrMaxRetries 20) = ''max retries (20) exceeded''"
    and 3: "vtexCalls s' = vtexCalls demoCached + 20"
    and 4: "sleeps (newEvents demoCached s') = backoff baseWait maxWait (replies ?e demoCached s')"
    and 5: "(\<forall>i<20. transient (vtexDo ?e (vtexCalls s' + i))) \<longrightarrow>
          (\<exists>s''. doRequestWithRetry ?e ''POST'' ''/_v/create-user-role'' demoPayload s'
                = (Some (ErrMaxRetries 20), s'')
             \<and> vtexCalls s'' = vtexCalls s' + 20
             \<and> sleeps (newEvents s' s'') = backoff baseWait maxWait (replies ?e s' s''))"
    by blast
  have c0: "vtexCalls demoCached = 0" by (simp add: demoCached_def demoClient_def)
  have "\<forall>i<20. transient (vtexDo ?e (vtexCalls s' + i))" by (simp add: demoEnv_def)
  with 5 obtain s'' where 6: "doRequestWithRetry ?e ''POST'' ''/_v/create-user-role'' demoPayload s'
                = (Some (ErrMaxRetries 20), s'')"
    and 7: "vtexCalls s'' = vtexCalls s' + 20"
    and 8: "sleeps (newEvents s' s'') = backoff baseWait maxWait (replies ?e s' s'')"
    by blast
  have s4: "sleeps (newEvents demoCached s') =
            [100000000, 150000000, 225000000, 337500000, 506250000, 759375000,
             1139062500, 1708593750, 2562890625, 3844335937, 5000000000, 5000000000,
             5000000000, 5000000000, 5000000000, 5000000000, 5000000000, 5000000000,
             5000000000, 5000000000]"
    using 4 3 sched by (simp add: rep)
  have s8: "sleeps (newEvents s' s'') = sleeps (newEvents demoCached s')"
    using 8 7 4 3 by (simp add: rep)
  have v1: "vtexCalls s' = 20" using 3 c0 by simp
  have v2: "vtexCalls s'' = 40" using 7 v1 by simp
  from 6 v2 s8 have second: "\<exists>s''. doRequestWithRetry ?e ''POST'' ''/_v/create-user-role'' demoPayload s'
              = (Some (ErrMaxRetries 20), s'')
            \<and> vtexCalls s'' = 40
            \<and> sleeps (newEvents s' s'') = sleeps (newEvents demoCached s')"
    by blast
  from av t19 1 2 v1 s4 second show ?thesis by blast
qed

subsection \<open>C6: a rejected token is refreshed once\<close>

text \<open>
  Claim C6. With a valid cached token, a token endpoint that answers, and the replies
  401 and 200, \<^verbatim>\<open>doRequestWithRetry\<close> returns \<^verbatim>\<open>nil\<close> after two requests, one forced
  refresh and no sleep. In general an iteration that continues after a 401 or a 403
  keeps the wait and the ceiling as they were, sleeps nothing and has forced one
  refresh; and a forced refresh empties the cached token, resets its expiry and goes
  to the token endpoint whatever the cache held.
\<close>

theorem auth_rejection_refreshes_once:
  "(token s \<noteq> [] \<and> now e (timeReads s) < tokenExpiry s
     \<and> tokenServiceUp e s
     \<and> jsonMarshal e payload = Inr body
     \<and> newRequest e meth (vtexBaseURL s @ endpoint) = None
     \<and> vtexDo e (vtexCalls s) = Response 401 b0
     \<and> vtexDo e (vtexCalls s + 1) = Response 200 b1 \<longrightarrow>
     (\<exists>s'. doRequestWithRetry e meth endpoint payload s = (None, s')
        \<and> count_list (newEvents s s') ForcedRefresh = 1
        \<and> sleeps (newEvents s s') = []
        \<and> vtexCalls s' = vtexCalls s + 2
        \<and> oktaCalls s < oktaCalls s'))
   \<and> (iteration e meth endpoint payload w m s = (Continue w' m', s')
        \<and> authRejected (vtexDo e (vtexCalls s)) \<longrightarrow>
        w' = w \<and> m' = m \<and> sleeps (newEvents s s') = []
        \<and> count_list (newEvents s s') ForcedRefresh = 1)
   \<and> refreshToken e s =
       fetchToken e (s\<lparr>token := [], tokenExpiry := zeroTime,
                       trace := trace s @ [ForcedRefresh]\<rparr>)"
proof -
  have run: "(token s \<noteq> [] \<and> now e (timeReads s) < tokenExpiry s
     \<and> tokenServiceUp e s
     \<and> jsonMarshal e payload = Inr body
     \<and> newRequest e meth (vtexBaseURL s @ endpoint) = None
     \<and> vtexDo e (vtexCalls s) = Response 401 b0
     \<and> vtexDo e (vtexCalls s + 1) = Response 200 b1 \<longrightarrow>
     (\<exists>s'. doRequestWithRetry e meth endpoint payload s = (None, s')
        \<and> count_list (newEvents s s') ForcedRefresh = 1
        \<and> sleeps (newEvents s s') = []
        \<and> vtexCalls s' = vtexCalls s + 2
        \<and> oktaCalls s < oktaCalls s'))"
  proof (rule impI)
    assume a: "token s \<noteq> [] \<and> now e (timeReads s) < tokenExpiry s
       \<and> tokenServiceUp e s
       \<and> jsonMarshal e payload = Inr body
       \<and> newRequest e meth (vtexBaseURL s @ endpoint) = None
       \<and> vtexDo e (vtexCalls s) = Response 401 b0
       \<and> vtexDo e (vtexCalls s + 1) = Response 200 b1"
    then have tok: "token s \<noteq> []" "now e (timeReads s) < tokenExpiry s"
      and up: "tokenServiceUp e s"
      and ma: "jsonMarshal e payload = Inr body"
      and nr: "newRequest e meth (vtexBaseURL s @ endpoint) = None"
      and r0: "vtexDo e (vtexCalls s) = Response 401 b0"
      and r1: "vtexDo e (Suc (vtexCalls s)) = Response 200 b1"
      by simp_all
    let ?rq = "Request meth (vtexBaseURL s @ endpoint) (token s) body"
    define s1 where "s1 = s\<lparr>timeReads := Suc (timeReads s)\<rparr>"
    define s2 where "s2 = s1\<lparr>vtexCalls := Suc (vtexCalls s), trace := trace s1 @ [?rq]\<rparr>"
    define sc where "sc = s2\<lparr>token := [], tokenExpiry := zeroTime,
      trace := trace s2 @ [ForcedRefresh]\<rparr>"
    have g1: "getToken e s = (Inr (token s), s1)"
      unfolding s1_def using tok by (rule getToken_fast)
    have "tokenServiceUp e sc" using up by (simp add: tokenServiceUp_def sc_def s2_def s1_def)
    from fetchToken_up [OF this] obtain tk s3 where f: "fetchToken e sc = (Inr tk, s3)" by blast
    then have rf: "refreshToken e s2 = (Inr tk, s3)" by (simp add: refreshToken_fetch sc_def)
    have i1: "iteration e meth endpoint payload baseWait maxWait s = (Continue baseWait maxWait, s3)"
      using r0 rf by (simp add: iteration_sent [OF g1 ma nr] Let_def s2_def [symmetric])
    note fr3 = refreshToken_frame [OF rf]
    have s3: "vtexCalls s3 = Suc (vtexCalls s)" "vtexBaseURL s3 = vtexBaseURL s"
      "oktaURL s3 = oktaURL s" "oktaCalls s3 = Suc (oktaCalls s)"
      "trace s3 = trace s @ [?rq, ForcedRefresh, TokenFetch]"
      using fetchToken_frame [OF f] f up
      by (auto simp: sc_def s2_def s1_def fetchToken_def Let_def tokenServiceUp_def
          split: option.splits okta_reply.splits sum.splits if_splits)
    have up3: "tokenServiceUp e s3" using up s3(3) by (simp add: tokenServiceUp_def)
    from getToken_up [OF up3] obtain tk4 s4 where g4: "getToken e s3 = (Inr tk4, s4)" by blast
    note fr4 = getToken_frame [OF g4]
    define s5 where "s5 = s4\<lparr>vtexCalls := Suc (vtexCalls s3),
      trace := trace s4 @ [Request meth (vtexBaseURL s3 @ endpoint) tk4 body]\<rparr>"
    from nr s3(2) have nr3: "newRequest e meth (vtexBaseURL s3 @ endpoint) = None" by simp
    have i2: "iteration e meth endpoint payload baseWait maxWait s3 = (Return None, s5)"
      using r1 s3(1) by (simp add: iteration_sent [OF g4 ma nr3] Let_def s5_def)
    have "doRequestWithRetry e meth endpoint payload s
        = retryLoop e meth endpoint payload (Suc 0) baseWait maxWait s3"
      unfolding doRequestWithRetry_def using retryLoop_Continue [OF _ i1, of 0]
      by (simp add: maxRetries_def)
    also have "\<dots> = (None, s5)"
      using retryLoop_Return [OF _ i2, of "Suc 0"] by (simp add: maxRetries_def)
    finally have run: "doRequestWithRetry e meth endpoint payload s = (None, s5)" .
    from fr4(4) obtain evs where evs: "trace s4 = trace s3 @ evs" "evs = [] \<or> evs = [TokenFetch]"
      by auto
    have tr5: "trace s5 = trace s @ ([?rq, ForcedRefresh, TokenFetch] @ evs
        @ [Request meth (vtexBaseURL s3 @ endpoint) tk4 body])"
      using evs(1) s3(5) by (simp add: s5_def)
    have ne: "newEvents s s5 = [?rq, ForcedRefresh, TokenFetch] @ evs
        @ [Request meth (vtexBaseURL s3 @ endpoint) tk4 body]"
      using tr5 by (rule newEvents_ext)
    have "count_list (newEvents s s5) ForcedRefresh = 1" "sleeps (newEvents s s5) = []"
      using evs(2) by (auto simp: ne sleeps_append)
    moreover have "vtexCalls s5 = vtexCalls s + 2" using s3(1) by (simp add: s5_def)
    moreover have "oktaCalls s < oktaCalls s5" using fr4(5) s3(4) by (simp add: s5_def)
    ultimately show "\<exists>s'. doRequestWithRetry e meth endpoint payload s = (None, s')
          \<and> count_list (newEvents s s') ForcedRefresh = 1
          \<and> sleeps (newEvents s s') = []
          \<and> vtexCalls s' = vtexCalls s + 2
          \<and> oktaCalls s < oktaCalls s'"
      using run by blast
  qed
  have branch: "(iteration e meth endpoint payload w m s = (Continue w' m', s')
        \<and> authRejected (vtexDo e (vtexCalls s)) \<longrightarrow>
        w' = w \<and> m' = m \<and> sleeps (newEvents s s') = []
        \<and> count_list (newEvents s s') ForcedRefresh = 1)"
  proof (rule impI)
    assume b: "iteration e meth endpoint payload w m s = (Continue w' m', s')
          \<and> authRejected (vtexDo e (vtexCalls s))"
    then have it: "iteration e meth endpoint payload w m s = (Continue w' m', s')"
      and au: "authRejected (vtexDo e (vtexCalls s))" by simp_all
    from au have nt: "\<not> transient (vtexDo e (vtexCalls s))"
      and nl: "\<not> rateLimited (vtexDo e (vtexCalls s))"
      using transient_not_auth rateLimited_transient by blast+
    from iteration_Continue(8) [OF it] nt obtain evs where
      "trace s' = trace s @ evs" "sleeps evs = []" "count_list evs ForcedRefresh = 1" by auto
    then have "sleeps (newEvents s s') = []" "count_list (newEvents s s') ForcedRefresh = 1"
      by (simp_all add: newEvents_ext)
    moreover from iteration_Continue(6,7) [OF it] nt nl have "w' = w" "m' = m" by simp_all
    ultimately show "w' = w \<and> m' = m \<and> sleeps (newEvents s s') = []
          \<and> count_list (newEvents s s') ForcedRefresh = 1" by simp
  qed
  show ?thesis by (intro conjI run branch refreshToken_fetch)
qed

theorem auth_rejection_refreshes_once_witness:
  "token demoCached \<noteq> []
   \<and> tokenServiceUp (demoEnv (\<lambda>n. 0) (\<lambda>n. freshToken)
                       (replay [Response 401 []] (Response 200 []))) demoCached
   \<and> vtexDo (demoEnv (\<lambda>n. 0) (\<lambda>n. freshToken) (replay [Response 401 []] (Response 200 [])))
        (vtexCalls demoCached) = Response 401 []
   \<and> vtexDo (demoEnv (\<lambda>n. 0) (\<lambda>n. freshToken) (replay [Response 401 []] (Response 200 [])))
        (vtexCalls demoCached + 1) = Response 200 []
   \<and> (\<exists>s'. doRequestWithRetry
          (demoEnv (\<lambda>n. 0) (\<lambda>n. freshToken) (replay [Response 401 []] (Response 200 [])))
          ''POST'' ''/_v/create-user-role'' demoPayload demoCached = (None, s')
        \<and> count_list (newEvents demoCached s') ForcedRefresh = 1
        \<and> sleeps (newEvents demoCached s') = []
        \<and> vtexCalls s' = vtexCalls demoCached + 2
        \<and> oktaCalls demoCached < oktaCalls s')
   \<and> iteration (demoEnv (\<lambda>n. 0) (\<lambda>n. freshToken) (replay [Response 401 []] (Response 200 [])))
        ''POST'' ''/_v/create-user-role'' demoPayload baseWait maxWait demoCached =
       (Continue baseWait maxWait,
        demoCached\<lparr>token := ''fresh'', tokenExpiry := 3300 * Second, timeReads := 2,
          oktaCalls := 1, vtexCalls := 1,
          trace := [Request ''POST'' ''https://vendor.myvtex.com/_v/create-user-role''
                      ''cached'' ''{}'',
                    ForcedRefresh, TokenFetch]\<rparr>)
   \<and> sleeps (newEvents demoCached
        (demoCached\<lparr>token := ''fresh'', tokenExpiry := 3300 * Second, timeReads := 2,
          oktaCalls := 1, vtexCalls := 1,
          trace := [Request ''POST'' ''https://vendor.myvtex.com/_v/create-user-role''
                      ''cached'' ''{}'',
                    ForcedRefresh, TokenFetch]\<rparr>)) = []
   \<and> count_list (newEvents demoCached
        (demoCached\<lparr>token := ''fresh'', tokenExpiry := 3300 * Second, timeReads := 2,
          oktaCalls := 1, vtexCalls := 1,
          trace := [Request ''POST'' ''https://vendor.myvtex.com/_v/create-user-role''
                      ''cached'' ''{}'',
                    ForcedRefresh, TokenFetch]\<rparr>)) ForcedRefresh = 1"
proof -
  let ?e = "demoEnv (\<lambda>n. 0) (\<lambda>n. freshToken) (replay [Response 401 []] (Response 200 []))"
  let ?s3 = "demoCached\<lparr>token := ''fresh'', tokenExpiry := 3300 * Second, timeReads := 2,
          oktaCalls := 1, vtexCalls := 1,
          trace := [Request ''POST'' ''https://vendor.myvtex.com/_v/create-user-role''
                      ''cached'' ''{}'',
                    ForcedRefresh, TokenFetch]\<rparr>"
  have tok: "token demoCached \<noteq> []" by (simp add: demoCached_def demoClient_def)
  have valid: "now ?e (timeReads demoCached) < tokenExpiry demoCached"
    by (simp add: demoEnv_def demoCached_def demoClient_def Second_def)
  have up: "tokenServiceUp ?e demoCached"
    by (simp add: tokenServiceUp_def demoEnv_def freshToken_def)
  have ma: "jsonMarshal ?e demoPayload = Inr ''{}''" by (simp add: demoEnv_def)
  have nr: "newRequest ?e ''POST'' (vtexBaseURL demoCached @ ''/_v/create-user-role'') = None"
    by (simp add: demoEnv_def)
  have r0: "vtexDo ?e (vtexCalls demoCached) = Response 401 []"
    and r1: "vtexDo ?e (vtexCalls demoCached + 1) = Response 200 []"
    by (simp_all add: demoEnv_def demoCached_def demoClient_def replay_def)
  have it: "iteration ?e ''POST'' ''/_v/create-user-role'' demoPayload baseWait maxWait demoCached
      = (Continue baseWait maxWait, ?s3)"
    by (simp add: run_defs Second_def)
  have au: "authRejected (vtexDo ?e (vtexCalls demoCached))" using r0 by simp
  note inst = auth_rejection_refreshes_once [where e = ?e and s = demoCached
      and payload = demoPayload and body = "''{}''" and meth = "''POST''"
      and endpoint = "''/_v/create-user-role''" and ?b0.0 = "[]" and ?b1.0 = "[]"
      and w = baseWait and m = maxWait and w' = baseWait and m' = maxWait and s' = ?s3]
  from inst tok valid up ma nr r0 r1
  have run: "\<exists>s'. doRequestWithRetry ?e ''POST'' ''/_v/create-user-role'' demoPayload demoCached
          = (None, s')
        \<and> count_list (newEvents demoCached s') ForcedRefresh = 1
        \<and> sleeps (newEvents demoCached s') = []
        \<and> vtexCalls s' = vtexCalls demoCached + 2
        \<and> oktaCalls demoCached < oktaCalls s'"
    by blast
  from inst it au
  have br: "sleeps (newEvents demoCached ?s3) = []"
    "count_list (newEvents demoCached ?s3) ForcedRefresh = 1"
    by blast+
  from tok up r0 r1 run it br show ?thesis by (intro conjI)
qed

subsection \<open>C7: statuses that end the call\<close>

text \<open>
  Claim C7. At any attempt whose request is sent and answered with a status from 400
  to 499 other than 401, 403, 404 and 429, the loop returns at once the error ``request
  failed'' that carries the status and the body; with a status from 200 to 299 it
  returns \<^verbatim>\<open>nil\<close>. In both cases the request just sent is the last one. The first
  attempt of \<^verbatim>\<open>doRequestWithRetry\<close> is the attempt number 0.
\<close>

theorem final_statuses:
  assumes "attempt < maxRetries"
    and "getToken e s = (Inr tok, s1)"
    and "jsonMarshal e payload = Inr body"
    and "newRequest e meth (vtexBaseURL s @ endpoint) = None"
    and "vtexDo e (vtexCalls s) = Response status b"
  shows "(400 \<le> status \<and> status < 500 \<and> status \<notin> {401, 403, 404, 429} \<longrightarrow>
            retryLoop e meth endpoint payload attempt w m s =
              (Some (ErrRequestFailed status b),
               s1\<lparr>vtexCalls := Suc (vtexCalls s),
                  trace := trace s1 @ [Request meth (vtexBaseURL s @ endpoint) tok body]\<rparr>)
            \<and> errorString (ErrRequestFailed status b) =
                ''request failed: status '' @ itoa status @ '', body: '' @ b)
       \<and> (200 \<le> status \<and> status < 300 \<longrightarrow>
            retryLoop e meth endpoint payload attempt w m s =
              (None,
               s1\<lparr>vtexCalls := Suc (vtexCalls s),
                  trace := trace s1 @ [Request meth (vtexBaseURL s @ endpoint) tok body]\<rparr>))
       \<and> doRequestWithRetry e meth endpoint payload s
           = retryLoop e meth endpoint payload 0 baseWait maxWait s"
proof (intro conjI impI)
  assume st: "400 \<le> status \<and> status < 500 \<and> status \<notin> {401, 403, 404, 429}"
  have "iteration e meth endpoint payload w m s =
      (Return (Some (ErrRequestFailed status b)),
       s1\<lparr>vtexCalls := Suc (vtexCalls s),
          trace := trace s1 @ [Request meth (vtexBaseURL s @ endpoint) tok body]\<rparr>)"
    using st assms(5) by (simp add: iteration_sent [OF assms(2-4)] Let_def)
  with assms(1) show "retryLoop e meth endpoint payload attempt w m s =
      (Some (ErrRequestFailed status b),
       s1\<lparr>vtexCalls := Suc (vtexCalls s),
          trace := trace s1 @ [Request meth (vtexBaseURL s @ endpoint) tok body]\<rparr>)"
    by (rule retryLoop_Return)
  show "errorString (ErrRequestFailed status b) =
      ''request failed: status '' @ itoa status @ '', body: '' @ b"
    by simp
next
  assume st: "200 \<le> status \<and> status < 300"
  have "iteration e meth endpoint payload w m s =
      (Return None,
       s1\<lparr>vtexCalls := Suc (vtexCalls s),
          trace := trace s1 @ [Request meth (vtexBaseURL s @ endpoint) tok body]\<rparr>)"
    using st assms(5) by (simp add: iteration_sent [OF assms(2-4)] Let_def)
  with assms(1) show "retryLoop e meth endpoint payload attempt w m s =
      (None,
       s1\<lparr>vtexCalls := Suc (vtexCalls s),
          trace := trace s1 @ [Request meth (vtexBaseURL s @ endpoint) tok body]\<rparr>)"
    by (rule retryLoop_Return)
next
  show "doRequestWithRetry e meth endpoint payload s
      = retryLoop e meth endpoint payload 0 baseWait maxWait s"
    by (simp add: doRequestWithRetry_def)
qed

theorem final_statuses_witness:
  "(0::nat) < maxRetries
   \<and> getToken (demoEnv (\<lambda>n. 0) (\<lambda>n. freshToken) (replay [Response 400 ''bad role''] (Response 204 [])))
        demoCached = (Inr ''cached'', demoCached\<lparr>timeReads := 1\<rparr>)
   \<and> vtexDo (demoEnv (\<lambda>n. 0) (\<lambda>n. freshToken) (replay [Response 400 ''bad role''] (Response 204 [])))
        (vtexCalls demoCached) = Response 400 ''bad role''
   \<and> doRequestWithRetry
        (demoEnv (\<lambda>n. 0) (\<lambda>n. freshToken) (replay [Response 400 ''bad role''] (Response 204 [])))
        ''POST'' ''/_v/create-user-role'' demoPayload demoCached =
       (Some (ErrRequestFailed 400 ''bad role''),
        demoCached\<lparr>timeReads := 1, vtexCalls := 1,
          trace := [Request ''POST'' ''https://vendor.myvtex.com/_v/create-user-role''
                      ''cached'' ''{}'']\<rparr>)
   \<and> errorString (ErrRequestFailed 400 ''bad role'') = ''request failed: status 400, body: bad role''
   \<and> getToken (demoEnv (\<lambda>n. 0) (\<lambda>n. freshToken) (\<lambda>n. Response 204 []))
        demoCached = (Inr ''cached'', demoCached\<lparr>timeReads := 1\<rparr>)
   \<and> doRequestWithRetry (demoEnv (\<lambda>n. 0) (\<lambda>n. freshToken) (\<lambda>n. Response 204 []))
        ''POST'' ''/_v/create-user-role'' demoPayload demoCached =
       (None,
        demoCached\<lparr>timeReads := 1, vtexCalls := 1,
          trace := [Request ''POST'' ''https://vendor.myvtex.com/_v/create-user-role''
                      ''cached'' ''{}'']\<rparr>)"
proof -
  let ?e1 = "demoEnv (\<lambda>n. 0) (\<lambda>n. freshToken) (replay [Response 400 ''bad role''] (Response 204 []))"
  let ?e2 = "demoEnv (\<lambda>n. 0) (\<lambda>n. freshToken) (\<lambda>n. Response 204 [])"
  have a: "(0::nat) < maxRetries" by (simp add: maxRetries_def)
  have g1: "getToken ?e1 demoCached = (Inr ''cached'', demoCached\<lparr>timeReads := 1\<rparr>)"
    by (simp add: getToken_def cachedValid_def demoEnv_def demoCached_def demoClient_def Second_def)
  have g2: "getToken ?e2 demoCached = (Inr ''cached'', demoCached\<lparr>timeReads := 1\<rparr>)"
    by (simp add: getToken_def cachedValid_def demoEnv_def demoCached_def demoClient_def Second_def)
  have m1: "jsonMarshal ?e1 demoPayload = Inr ''{}''" by (simp add: demoEnv_def)
  have m2: "jsonMarshal ?e2 demoPayload = Inr ''{}''" by (simp add: demoEnv_def)
  have n1: "newRequest ?e1 ''POST'' (vtexBaseURL demoCached @ ''/_v/create-user-role'') = None"
    by (simp add: demoEnv_def)
  have n2: "newRequest ?e2 ''POST'' (vtexBaseURL demoCached @ ''/_v/create-user-role'') = None"
    by (simp add: demoEnv_def)
  have r1: "vtexDo ?e1 (vtexCalls demoCached) = Response 400 ''bad role''"
    by (simp add: demoEnv_def demoCached_def demoClient_def replay_def)
  have r2: "vtexDo ?e2 (vtexCalls demoCached) = Response 204 []"
    by (simp add: demoEnv_def)
  from final_statuses [OF a g1 m1 n1 r1, of baseWait maxWait]
  have c1: "doRequestWithRetry ?e1 ''POST'' ''/_v/create-user-role'' demoPayload demoCached =
       (Some (ErrRequestFailed 400 ''bad role''),
        demoCached\<lparr>timeReads := 1, vtexCalls := 1,
          trace := [Request ''POST'' ''https://vendor.myvtex.com/_v/create-user-role''
                      ''cached'' ''{}'']\<rparr>)"
    and c2: "errorString (ErrRequestFailed 400 ''bad role'') = ''request failed: status 400, body: bad role''"
    by (simp_all add: demoCached_def demoClient_def itoa_400)
  from final_statuses [OF a g2 m2 n2 r2, of baseWait maxWait]
  have c3: "doRequestWithRetry ?e2 ''POST'' ''/_v/create-user-role'' demoPayload demoCached =
       (None,
        demoCached\<lparr>timeReads := 1, vtexCalls := 1,
          trace := [Request ''POST'' ''https://vendor.myvtex.com/_v/create-user-role''
                      ''cached'' ''{}'']\<rparr>)"
    by (simp add: demoCached_def demoClient_def)
  from a g1 r1 c1 c2 g2 c3 show ?thesis by blast
qed

subsection \<open>C8: how long a fetched token is valid\<close>

text \<open>
  Two fetches on which the claim fails as it is stated. A lifetime of ten thousand
  million seconds overflows the 64-bit count of nanoseconds: the expiry stored is in
  the past, not at \<open>t + (E - 300)\<close> seconds. And a reply whose access token is the
  empty string is stored with its expiry of 3300 seconds, yet the next call of
  \<^verbatim>\<open>getToken\<close>, made before that expiry, goes to the token endpoint again.
\<close>

theorem token_window_fails:
  "tokenExpiry (snd (getToken
      (demoEnv (\<lambda>n. 0)
         (\<lambda>n. OktaResponse 200 ''{}''
            (Inr \<lparr>AccessToken = ''fresh'', TokenType = ''Bearer'', ExpiresIn = 10000000000\<rparr>))
         (\<lambda>n. Response 200 []))
      demoClient)) = - 8446744373709551616
   \<and> - 8446744373709551616 \<noteq> 0 + (10000000000 - 300) * Second
   \<and> getToken
      (demoEnv (\<lambda>n. 0)
         (\<lambda>n. OktaResponse 200 ''{}''
            (Inr \<lparr>AccessToken = [], TokenType = ''Bearer'', ExpiresIn = 3600\<rparr>))
         (\<lambda>n. Response 200 []))
      demoClient =
     (Inr [], demoClient\<lparr>tokenExpiry := 0 + (3600 - 300) * Second, timeReads := 1,
                oktaCalls := 1, trace := [TokenFetch]\<rparr>)
   \<and> (0::int) < 0 + (3600 - 300) * Second
   \<and> getToken
      (demoEnv (\<lambda>n. 0)
         (\<lambda>n. OktaResponse 200 ''{}''
            (Inr \<lparr>AccessToken = [], TokenType = ''Bearer'', ExpiresIn = 3600\<rparr>))
         (\<lambda>n. Response 200 []))
      (demoClient\<lparr>tokenExpiry := 0 + (3600 - 300) * Second, timeReads := 1,
                oktaCalls := 1, trace := [TokenFetch]\<rparr>) =
     (Inr [], demoClient\<lparr>tokenExpiry := 0 + (3600 - 300) * Second, timeReads := 2,
                oktaCalls := 2, trace := [TokenFetch, TokenFetch]\<rparr>)"
  by (simp add: getToken_def cachedValid_def fetchToken_def demoEnv_def demoClient_def
      Let_def Second_def)

text \<open>
  Claim C8, as the code has it. Let \<^verbatim>\<open>getToken\<close> find the cache invalid and fetch a
  token at time \<open>t\<close>, with a lifetime of \<open>E\<close> seconds such that \<open>(E - 300) * 10 ^ 9\<close>
  fits in 64 bits, and an access token that is not empty. Then the expiry stored is
  \<open>t + (E - 300)\<close> seconds, and afterwards \<^verbatim>\<open>getToken\<close> returns the cached token
  without a call of the token endpoint exactly when the clock reads less than that
  expiry. The clock does not run backwards.
\<close>

theorem token_valid_until_expiry:
  assumes invalid: "token s = [] \<or> tokenExpiry s \<le> now e (timeReads s)"
    and mono: "\<forall>n. now e n \<le> now e (Suc n)"
    and nr: "newRequest e ''POST'' (oktaURL s) = None"
    and reply: "oktaDo e (oktaCalls s) = OktaResponse 200 body (Inr resp)"
    and fetched: "t = now e (if token s = [] then timeReads s else timeReads s + 2)"
    and nonempty: "AccessToken resp \<noteq> []"
    and lower: "- (2 ^ 63) \<le> (sint (ExpiresIn resp) - 300) * 1000000000"
    and upper: "(sint (ExpiresIn resp) - 300) * 1000000000 < 2 ^ 63"
  shows "\<exists>s'. getToken e s = (Inr (AccessToken resp), s')
     \<and> oktaCalls s' = Suc (oktaCalls s)
     \<and> token s' = AccessToken resp
     \<and> tokenExpiry s' = t + (sint (ExpiresIn resp) - 300) * Second
     \<and> (\<forall>s2. token s2 = token s' \<and> tokenExpiry s2 = tokenExpiry s' \<and> oktaURL s2 = oktaURL s
           \<longrightarrow> ((fst (getToken e s2) = Inr (AccessToken resp)
                  \<and> oktaCalls (snd (getToken e s2)) = oktaCalls s2)
                \<longleftrightarrow> now e (timeReads s2) < t + (sint (ExpiresIn resp) - 300) * Second))"
proof -
  let ?k = "if token s = [] then timeReads s else timeReads s + 2"
  define s' where "s' = s\<lparr>token := AccessToken resp,
       tokenExpiry := now e ?k + sint ((ExpiresIn resp - 300) * 1000000000),
       timeReads := Suc ?k, oktaCalls := Suc (oktaCalls s),
       trace := trace s @ [TokenFetch]\<rparr>"
  have run: "getToken e s = (Inr (AccessToken resp), s')"
    using fetchToken_success [of e "s\<lparr>timeReads := ?k\<rparr>" body resp] nr reply
    by (simp add: getToken_fetches [OF invalid mono] s'_def)
  have "tokenExpiry s' = t + sint ((ExpiresIn resp - 300) * 1000000000)"
    by (simp add: s'_def fetched)
  also have "sint ((ExpiresIn resp - 300) * 1000000000)
      = (sint (ExpiresIn resp) - 300) * 1000000000"
    using lower upper by (rule lifetime_in_range)
  finally have ex: "tokenExpiry s' = t + (sint (ExpiresIn resp) - 300) * Second"
    by (simp add: Second_def)
  have later: "(fst (getToken e s2) = Inr (AccessToken resp)
                  \<and> oktaCalls (snd (getToken e s2)) = oktaCalls s2)
                \<longleftrightarrow> now e (timeReads s2) < t + (sint (ExpiresIn resp) - 300) * Second"
    if s2: "token s2 = token s' \<and> tokenExpiry s2 = tokenExpiry s' \<and> oktaURL s2 = oktaURL s"
    for s2
  proof -
    from s2 nr have nr2: "newRequest e ''POST'' (oktaURL s2) = None" by simp
    from s2 have tk: "token s2 = AccessToken resp" by (simp add: s'_def)
    from getToken_fast_iff [OF mono nr2] s2 ex nonempty show ?thesis by (simp add: tk)
  qed
  have "oktaCalls s' = Suc (oktaCalls s)" "token s' = AccessToken resp"
    by (simp_all add: s'_def)
  with run ex later show ?thesis by blast
qed

theorem token_valid_until_expiry_witness:
  "(token demoClient = [] \<or> tokenExpiry demoClient \<le>
      now (demoEnv (\<lambda>n. int n * Second) (\<lambda>n. freshToken) (\<lambda>n. Response 200 []))
        (timeReads demoClient))
   \<and> getToken (demoEnv (\<lambda>n. int n * Second) (\<lambda>n. freshToken) (\<lambda>n. Response 200 []))
        demoClient =
       (Inr ''fresh'',
        demoClient\<lparr>token := ''fresh'', tokenExpiry := 0 + (3600 - 300) * Second,
          timeReads := 1, oktaCalls := 1, trace := [TokenFetch]\<rparr>)
   \<and> now (demoEnv (\<lambda>n. int n * Second) (\<lambda>n. freshToken) (\<lambda>n. Response 200 [])) 3299
       < 0 + (3600 - 300) * Second
   \<and> fst (getToken (demoEnv (\<lambda>n. int n * Second) (\<lambda>n. freshToken) (\<lambda>n. Response 200 []))
        (demoClient\<lparr>token := ''fresh'', tokenExpiry := 0 + (3600 - 300) * Second,
          timeReads := 3299, oktaCalls := 1, trace := [TokenFetch]\<rparr>)) = Inr ''fresh''
   \<and> oktaCalls (snd (getToken
        (demoEnv (\<lambda>n. int n * Second) (\<lambda>n. freshToken) (\<lambda>n. Response 200 []))
        (demoClient\<lparr>token := ''fresh'', tokenExpiry := 0 + (3600 - 300) * Second,
          timeReads := 3299, oktaCalls := 1, trace := [TokenFetch]\<rparr>))) = 1
   \<and> \<not> now (demoEnv (\<lambda>n. int n * Second) (\<lambda>n. freshToken) (\<lambda>n. Response 200 [])) 3300
       < 0 + (3600 - 300) * Second
   \<and> oktaCalls (snd (getToken
        (demoEnv (\<lambda>n. int n * Second) (\<lambda>n. freshToken) (\<lambda>n. Response 200 []))
        (demoClient\<lparr>token := ''fresh'', tokenExpiry := 0 + (3600 - 300) * Second,
          timeReads := 3300, oktaCalls := 1, trace := [TokenFetch]\<rparr>))) \<noteq> 1"
proof -
  let ?e = "demoEnv (\<lambda>n. int n * Second) (\<lambda>n. freshToken) (\<lambda>n. Response 200 [])"
  let ?r = "\<lparr>AccessToken = ''fresh'', TokenType = ''Bearer'', ExpiresIn = 3600\<rparr>"
  let ?s' = "demoClient\<lparr>token := ''fresh'', tokenExpiry := 0 + (3600 - 300) * Second,
          timeReads := 1, oktaCalls := 1, trace := [TokenFetch]\<rparr>"
  let ?a = "demoClient\<lparr>token := ''fresh'', tokenExpiry := 0 + (3600 - 300) * Second,
          timeReads := 3299, oktaCalls := 1, trace := [TokenFetch]\<rparr>"
  let ?b = "demoClient\<lparr>token := ''fresh'', tokenExpiry := 0 + (3600 - 300) * Second,
          timeReads := 3300, oktaCalls := 1, trace := [TokenFetch]\<rparr>"
  have invalid: "token demoClient = [] \<or> tokenExpiry demoClient \<le> now ?e (timeReads demoClient)"
    by (simp add: demoClient_def)
  have mono: "\<forall>n. now ?e n \<le> now ?e (Suc n)" by (simp add: demoEnv_def Second_def)
  have nr: "newRequest ?e ''POST'' (oktaURL demoClient) = None" by (simp add: demoEnv_def)
  have reply: "oktaDo ?e (oktaCalls demoClient) = OktaResponse 200 ''{}'' (Inr ?r)"
    by (simp add: demoEnv_def freshToken_def)
  have fetched: "0 = now ?e (if token demoClient = [] then timeReads demoClient
                             else timeReads demoClient + 2)"
    by (simp add: demoEnv_def demoClient_def)
  have nonempty: "AccessToken ?r \<noteq> []" by simp
  have lower: "- (2 ^ 63) \<le> (sint (ExpiresIn ?r) - 300) * 1000000000" by simp
  have upper: "(sint (ExpiresIn ?r) - 300) * 1000000000 < 2 ^ 63" by simp
  from token_valid_until_expiry [OF invalid mono nr reply fetched nonempty lower upper]
  obtain s' where g: "getToken ?e demoClient = (Inr (AccessToken ?r), s')"
    and tk: "token s' = AccessToken ?r"
    and ex: "tokenExpiry s' = 0 + (sint (ExpiresIn ?r) - 300) * Second"
    and later: "\<forall>s2. token s2 = token s' \<and> tokenExpiry s2 = tokenExpiry s'
             \<and> oktaURL s2 = oktaURL demoClient
           \<longrightarrow> ((fst (getToken ?e s2) = Inr (AccessToken ?r)
                  \<and> oktaCalls (snd (getToken ?e s2)) = oktaCalls s2)
                \<longleftrightarrow> now ?e (timeReads s2) < 0 + (sint (ExpiresIn ?r) - 300) * Second)"
    by blast
  have g': "getToken ?e demoClient = (Inr ''fresh'', ?s')"
    by (simp add: getToken_def cachedValid_def fetchToken_def demoEnv_def demoClient_def
        freshToken_def Let_def Second_def)
  with g have s': "s' = ?s'" by simp
  have before: "now ?e 3299 < 0 + (3600 - 300) * Second" by (simp add: demoEnv_def Second_def)
  have after: "\<not> now ?e 3300 < 0 + (3600 - 300) * Second" by (simp add: demoEnv_def Second_def)
  from later [rule_format, of ?a] before
  have a: "fst (getToken ?e ?a) = Inr ''fresh''" "oktaCalls (snd (getToken ?e ?a)) = 1"
    by (simp_all add: s' demoClient_def)
  from later [rule_format, of ?b] after
  have "\<not> (fst (getToken ?e ?b) = Inr ''fresh'' \<and> oktaCalls (snd (getToken ?e ?b)) = 1)"
    by (simp add: s' demoClient_def)
  moreover have "fst (getToken ?e ?b) = Inr ''fresh''"
    by (simp add: getToken_def cachedValid_def fetchToken_def demoEnv_def demoClient_def
        freshToken_def Let_def Second_def)
  ultimately have b: "oktaCalls (snd (getToken ?e ?b)) \<noteq> 1" by blast
  from invalid g' before a after b show ?thesis by (intro conjI)
qed

subsection \<open>C9: the identifier and its parse\<close>

text \<open>
  Claim C9. When \<^verbatim>\<open>Create\<close> succeeds on a plan with a known email, account and
  role name, the identifier it stores is the email, a colon, the account, a colon and
  the role name. If neither the email nor the account holds a colon,
  \<^verbatim>\<open>ImportState\<close> on that identifier succeeds and sets the same identifier, email,
  account and role name, and the name is the part of the email before its first
  \<open>@\<close>: \<open>a\<close> for \<open>a@b.com\<close>.
\<close>

theorem identifier_round_trip:
  assumes "attr_email data = Known email"
    and "attr_account data = Known account"
    and "attr_role_name data = Known role"
    and "CHR '':'' \<notin> set email"
    and "CHR '':'' \<notin> set account"
    and "Create e (planDiags, data) resp s = (Inr created, s')"
    and "\<not> HasError (diagnostics created)"
  shows "state created ''id'' = Some (Known (email @ '':'' @ account @ '':'' @ role))
     \<and> (\<exists>imported.
          ImportState (email @ '':'' @ account @ '':'' @ role) resp2 = Inr imported
          \<and> diagnostics imported = diagnostics resp2
          \<and> state imported ''id'' = state created ''id''
          \<and> state imported ''email'' = Some (Known email)
          \<and> state imported ''email'' = state created ''email''
          \<and> state imported ''account'' = Some (Known account)
          \<and> state imported ''account'' = state created ''account''
          \<and> state imported ''role_name'' = Some (Known role)
          \<and> state imported ''role_name'' = state created ''role_name''
          \<and> state imported ''name'' = Some (Known (takeWhile (\<lambda>x. x \<noteq> CHR ''@'') email)))"
proof -
  note cs = Create_success(1-4) [OF assms(6,7)]
  have ident: "state created ''id'' = Some (Known (email @ '':'' @ account @ '':'' @ role))"
    using cs(1) assms(1-3) by simp
  have imp: "ImportState (email @ '':'' @ account @ '':'' @ role) resp2 =
    Inr (resp2\<lparr>state := (state resp2)
      (''id'' \<mapsto> Known (email @ '':'' @ account @ '':'' @ role),
       ''email'' \<mapsto> Known email,
       ''account'' \<mapsto> Known account,
       ''role_name'' \<mapsto> Known role,
       ''name'' \<mapsto> Known (takeWhile (\<lambda>x. x \<noteq> CHR ''@'') email))\<rparr>)"
    using assms(4,5) by (rule ImportState_join)
  show ?thesis
    using ident cs(2-4) assms(1-3) imp by simp
qed

theorem identifier_round_trip_witness:
  "attr_email (demoPlan ''a@b.com'') = Known ''a@b.com''
   \<and> CHR '':'' \<notin> set ''a@b.com'' \<and> CHR '':'' \<notin> set ''vendor''
   \<and> Create (demoEnv (\<lambda>n. 0) (\<lambda>n. freshToken) (\<lambda>n. Response 200 []))
        ([], demoPlan ''a@b.com'') emptyResponse demoCached =
       (Inr \<lparr>diagnostics = [],
             state = [''id'' \<mapsto> Known ''a@b.com:vendor:Owner'', ''email'' \<mapsto> Known ''a@b.com'',
                      ''name'' \<mapsto> Known ''a'',
                      ''account'' \<mapsto> Known ''vendor'', ''role_name'' \<mapsto> Known ''Owner'']\<rparr>,
        demoCached\<lparr>timeReads := 1, vtexCalls := 1,
          trace := [Request ''POST'' ''https://vendor.myvtex.com/_v/create-user-role''
                      ''cached'' ''{}'']\<rparr>)
   \<and> (\<exists>imported.
          ImportState ''a@b.com:vendor:Owner'' emptyResponse = Inr imported
          \<and> diagnostics imported = []
          \<and> state imported ''id'' = Some (Known ''a@b.com:vendor:Owner'')
          \<and> state imported ''email'' = Some (Known ''a@b.com'')
          \<and> state imported ''account'' = Some (Known ''vendor'')
          \<and> state imported ''role_name'' = Some (Known ''Owner'')
          \<and> state imported ''name'' = Some (Known ''a''))"
proof -
  let ?e = "demoEnv (\<lambda>n. 0) (\<lambda>n. freshToken) (\<lambda>n. Response 200 [])"
  let ?created = "\<lparr>diagnostics = [],
             state = [''id'' \<mapsto> Known ''a@b.com:vendor:Owner'', ''email'' \<mapsto> Known ''a@b.com'',
                      ''name'' \<mapsto> Known ''a'',
                      ''account'' \<mapsto> Known ''vendor'', ''role_name'' \<mapsto> Known ''Owner'']\<rparr>"
  let ?s' = "demoCached\<lparr>timeReads := 1, vtexCalls := 1,
          trace := [Request ''POST'' ''https://vendor.myvtex.com/_v/create-user-role''
                      ''cached'' ''{}'']\<rparr>"
  have h1: "attr_email (demoPlan ''a@b.com'') = Known ''a@b.com''"
    and h2: "attr_account (demoPlan ''a@b.com'') = Known ''vendor''"
    and h3: "attr_role_name (demoPlan ''a@b.com'') = Known ''Owner''"
    by (simp_all add: demoPlan_def)
  have h4: "CHR '':'' \<notin> set ''a@b.com''" and h5: "CHR '':'' \<notin> set ''vendor''" by simp_all
  have h6: "Create ?e ([], demoPlan ''a@b.com'') emptyResponse demoCached = (Inr ?created, ?s')"
    using demo_create [of "''a@b.com''"] by simp
  have h7: "\<not> HasError (diagnostics ?created)" by (simp add: HasError_def)
  from identifier_round_trip [OF h1 h2 h3 h4 h5 h6 h7, where ?resp2.0 = emptyResponse]
  have "\<exists>imported.
          ImportState ''a@b.com:vendor:Owner'' emptyResponse = Inr imported
          \<and> diagnostics imported = []
          \<and> state imported ''id'' = Some (Known ''a@b.com:vendor:Owner'')
          \<and> state imported ''email'' = Some (Known ''a@b.com'')
          \<and> state imported ''account'' = Some (Known ''vendor'')
          \<and> state imported ''role_name'' = Some (Known ''Owner'')
          \<and> state imported ''name'' = Some (Known ''a'')"
    by (simp add: emptyResponse_def)
  with h1 h4 h5 h6 show ?thesis by (intro conjI)
qed

subsection \<open>C10: the default name\<close>

text \<open>
  Claim C10. When the plan is read without error and its name is null, unknown or
  empty, \<^verbatim>\<open>Create\<close> sends to VTEX, and stores on success, the part of the email before
  its first \<open>@\<close> as the name; it does not panic, and it reports an error only when
  the client returns one. \<^verbatim>\<open>ImportState\<close> derives the name in the same way from the
  email part of an identifier it accepts. For an email without \<open>@\<close> that part is
  the whole email.
\<close>

theorem default_name:
  "(\<not> HasError (Append (diagnostics resp) planDiags) \<and> ValueString (attr_name data) = [] \<longrightarrow>
      Create e (planDiags, data) resp s =
        (case CreateUserRole e
                \<lparr>Email = ValueString (attr_email data),
                 Name = takeWhile (\<lambda>x. x \<noteq> CHR ''@'') (ValueString (attr_email data)),
                 Account = ValueString (attr_account data),
                 RoleName = ValueString (attr_role_name data)\<rparr> s of
           (Some err, s') \<Rightarrow>
             (Inr (AddError ''Error Creating VTEX User Role''
                     (''Could not create user role, unexpected error: '' @ errorString err)
                     (resp\<lparr>diagnostics := Append (diagnostics resp) planDiags\<rparr>)),
              s')
         | (None, s') \<Rightarrow>
             (Inr (StateSet
                     (data\<lparr>attr_name := Known (takeWhile (\<lambda>x. x \<noteq> CHR ''@'')
                                                   (ValueString (attr_email data))),
                           attr_id := Known (ValueString (attr_email data) @ '':''
                               @ ValueString (attr_account data) @ '':''
                               @ ValueString (attr_role_name data))\<rparr>)
                     (resp\<lparr>diagnostics := Append (diagnostics resp) planDiags\<rparr>)),
              s')))
   \<and> (2 \<le> count_list reqID CHR '':'' \<longrightarrow>
        (\<exists>imported. ImportState reqID resp = Inr imported
           \<and> diagnostics imported = diagnostics resp
           \<and> state imported ''name'' =
               Some (Known (takeWhile (\<lambda>x. x \<noteq> CHR ''@'')
                              (takeWhile (\<lambda>x. x \<noteq> CHR '':'') reqID)))))
   \<and> (CHR ''@'' \<notin> set email \<longrightarrow> takeWhile (\<lambda>x. x \<noteq> CHR ''@'') email = email)"
proof (intro conjI)
  show "\<not> HasError (Append (diagnostics resp) planDiags) \<and> ValueString (attr_name data) = [] \<longrightarrow>
      Create e (planDiags, data) resp s =
        (case CreateUserRole e
                \<lparr>Email = ValueString (attr_email data),
                 Name = takeWhile (\<lambda>x. x \<noteq> CHR ''@'') (ValueString (attr_email data)),
                 Account = ValueString (attr_account data),
                 RoleName = ValueString (attr_role_name data)\<rparr> s of
           (Some err, s') \<Rightarrow>
             (Inr (AddError ''Error Creating VTEX User Role''
                     (''Could not create user role, unexpected error: '' @ errorString err)
                     (resp\<lparr>diagnostics := Append (diagnostics resp) planDiags\<rparr>)),
              s')
         | (None, s') \<Rightarrow>
             (Inr (StateSet
                     (data\<lparr>attr_name := Known (takeWhile (\<lambda>x. x \<noteq> CHR ''@'')
                                                   (ValueString (attr_email data))),
                           attr_id := Known (ValueString (attr_email data) @ '':''
                               @ ValueString (attr_account data) @ '':''
                               @ ValueString (attr_role_name data))\<rparr>)
                     (resp\<lparr>diagnostics := Append (diagnostics resp) planDiags\<rparr>)),
              s'))"
  proof (rule impI)
    assume a: "\<not> HasError (Append (diagnostics resp) planDiags) \<and> ValueString (attr_name data) = []"
    then have ne: "\<not> HasError (Append (diagnostics resp) planDiags)"
      and em: "ValueString (attr_name data) = []" by simp_all
    show "Create e (planDiags, data) resp s =
        (case CreateUserRole e
                \<lparr>Email = ValueString (attr_email data),
                 Name = takeWhile (\<lambda>x. x \<noteq> CHR ''@'') (ValueString (attr_email data)),
                 Account = ValueString (attr_account data),
                 RoleName = ValueString (attr_role_name data)\<rparr> s of
           (Some err, s') \<Rightarrow>
             (Inr (AddError ''Error Creating VTEX User Role''
                     (''Could not create user role, unexpected error: '' @ errorString err)
                     (resp\<lparr>diagnostics := Append (diagnostics resp) planDiags\<rparr>)),
              s')
         | (None, s') \<Rightarrow>
             (Inr (StateSet
                     (data\<lparr>attr_name := Known (takeWhile (\<lambda>x. x \<noteq> CHR ''@'')
                                                   (ValueString (attr_email data))),
                           attr_id := Known (ValueString (attr_email data) @ '':''
                               @ ValueString (attr_account data) @ '':''
                               @ ValueString (attr_role_name data))\<rparr>)
                     (resp\<lparr>diagnostics := Append (diagnostics resp) planDiags\<rparr>)),
              s'))"
      using Create_named [OF ne, of e data s] em by simp
  qed
next
  show "2 \<le> count_list reqID CHR '':'' \<longrightarrow>
        (\<exists>imported. ImportState reqID resp = Inr imported
           \<and> diagnostics imported = diagnostics resp
           \<and> state imported ''name'' =
               Some (Known (takeWhile (\<lambda>x. x \<noteq> CHR ''@'')
                              (takeWhile (\<lambda>x. x \<noteq> CHR '':'') reqID))))"
    by (simp add: ImportState_ok)
next
  show "CHR ''@'' \<notin> set email \<longrightarrow> takeWhile (\<lambda>x. x \<noteq> CHR ''@'') email = email"
    by (simp add: takeWhile_no_sep)
qed

theorem default_name_witness:
  "\<not> HasError (Append (diagnostics emptyResponse) [])
   \<and> ValueString (attr_name (demoPlan ''ops'')) = []
   \<and> CHR ''@'' \<notin> set ''ops''
   \<and> Create (demoEnv (\<lambda>n. 0) (\<lambda>n. freshToken) (\<lambda>n. Response 200 []))
        ([], demoPlan ''ops'') emptyResponse demoCached =
       (Inr \<lparr>diagnostics = [],
             state = [''id'' \<mapsto> Known ''ops:vendor:Owner'', ''email'' \<mapsto> Known ''ops'',
                      ''name'' \<mapsto> Known ''ops'',
                      ''account'' \<mapsto> Known ''vendor'', ''role_name'' \<mapsto> Known ''Owner'']\<rparr>,
        demoCached\<lparr>timeReads := 1, vtexCalls := 1,
          trace := [Request ''POST'' ''https://vendor.myvtex.com/_v/create-user-role''
                      ''cached'' ''{}'']\<rparr>)
   \<and> 2 \<le> count_list ''ops:vendor:Owner'' CHR '':''
   \<and> (\<exists>imported. ImportState ''ops:vendor:Owner'' emptyResponse = Inr imported
          \<and> diagnostics imported = []
          \<and> state imported ''name'' = Some (Known ''ops''))"
proof -
  let ?e = "demoEnv (\<lambda>n. 0) (\<lambda>n. freshToken) (\<lambda>n. Response 200 [])"
  have h1: "\<not> HasError (Append (diagnostics emptyResponse) [])"
    by (simp add: HasError_def Append_def emptyResponse_def)
  have h2: "ValueString (attr_name (demoPlan ''ops'')) = []" by (simp add: demoPlan_def)
  have h3: "CHR ''@'' \<notin> set ''ops''" by simp
  have h4: "2 \<le> count_list ''ops:vendor:Owner'' CHR '':''" by simp
  note inst = default_name [where resp = emptyResponse and planDiags = "[]"
      and data = "demoPlan ''ops''" and e = ?e and s = demoCached
      and reqID = "''ops:vendor:Owner''" and email = "''ops''"]
  have cu: "CreateUserRole ?e
      \<lparr>Email = ''ops'', Name = ''ops'', Account = ''vendor'', RoleName = ''Owner''\<rparr> demoCached =
      (None, demoCached\<lparr>timeReads := 1, vtexCalls := 1,
          trace := [Request ''POST'' ''https://vendor.myvtex.com/_v/create-user-role''
                      ''cached'' ''{}'']\<rparr>)"
    by (simp add: CreateUserRole_def run_defs Second_def)
  from inst h3 have nm: "takeWhile (\<lambda>x. x \<noteq> CHR ''@'') ''ops'' = ''ops''" by blast
  from inst h1 h2
  have c1: "Create ?e ([], demoPlan ''ops'') emptyResponse demoCached =
       (Inr \<lparr>diagnostics = [],
             state = [''id'' \<mapsto> Known ''ops:vendor:Owner'', ''email'' \<mapsto> Known ''ops'',
                      ''name'' \<mapsto> Known ''ops'',
                      ''account'' \<mapsto> Known ''vendor'', ''role_name'' \<mapsto> Known ''Owner'']\<rparr>,
        demoCached\<lparr>timeReads := 1, vtexCalls := 1,
          trace := [Request ''POST'' ''https://vendor.myvtex.com/_v/create-user-role''
                      ''cached'' ''{}'']\<rparr>)"
    using cu by (simp add: demoPlan_def StateSet_def Append_def emptyResponse_def)
  from inst h4
  have c2: "\<exists>imported. ImportState ''ops:vendor:Owner'' emptyResponse = Inr imported
          \<and> diagnostics imported = []
          \<and> state imported ''name'' = Some (Known ''ops'')"
    by (simp add: emptyResponse_def)
  from h1 h2 h3 c1 h4 c2 show ?thesis by (intro conjI)
qed

end
